theory Spec2Isabelle
  imports Complex_Main
begin

section \<open>Data model\<close>

text \<open>
  The development embeds \<^verbatim>\<open>fipy/models/levelSet/distanceFunction/distanceVariable.py\<close>.
  Field values are Python floats; they are modelled as mathematical reals, so every statement
  below is about the exact arithmetic the code approximates. What is kept from the machine
  is the control flow: a Python float division by zero raises, and is a branch of the model.

  Masked arrays (module \<^verbatim>\<open>MA\<close>) are lists of options, \<open>None\<close> being a masked entry.
\<close>

datatype error =
    ConfigurationError  \<comment> \<open>\<^verbatim>\<open>raise Error\<close> in \<^verbatim>\<open>_calcTrialValue\<close>\<close>
  | ZeroDivisionError   \<comment> \<open>a float division whose divisor is \<open>0\<close>\<close>
  | IndexError          \<comment> \<open>an index outside an array\<close>
  | MAError             \<comment> \<open>a masked entry where a plain array is required\<close>

text \<open>
  The mesh is an external collaborator: the code only reads the four per-cell tables below
  (one row per cell, one slot per face of the cell, masked where the cell has no neighbour
  there) and the dimension.
\<close>

record mesh =
  dim :: nat
  cellToCellIDs :: "nat option list list"
  cellToCellDistances :: "real option list list"
  cellNormals :: "real list option list list"
  cellAreas :: "real option list list"

definition getNumberOfCells :: "mesh \<Rightarrow> nat" where
  "getNumberOfCells m = length (cellToCellIDs m)"

text \<open>\<^verbatim>\<open>MA.array(...).filled(0)\<close>, as applied in \<^verbatim>\<open>__init__\<close> to distances and areas.\<close>

definition filled :: "'a \<Rightarrow> 'a option list list \<Rightarrow> 'a list list" where
  "filled c t = map (map (\<lambda>x. case x of None \<Rightarrow> c | Some v \<Rightarrow> v)) t"

definition filledDistances :: "mesh \<Rightarrow> real list list" where
  "filledDistances m = filled 0 (cellToCellDistances m)"

definition filledAreas :: "mesh \<Rightarrow> real list list" where
  "filledAreas m = filled 0 (cellAreas m)"

definition filledNormals :: "mesh \<Rightarrow> real list list list" where
  "filledNormals m = filled (replicate (dim m) 0) (cellNormals m)"

text \<open>
  Modelled from the spec: \<^verbatim>\<open>mesh._getCellToCellIDsFilled()\<close> is not part of the sources at
  hand. A masked neighbour slot is excluded from every reduction; the mesh achieves this by
  putting the cell's own ID into the slot, a cell never being evaluated while its own trial
  value is computed.
\<close>

definition cellToCellIDsFilled :: "mesh \<Rightarrow> nat list list" where
  "cellToCellIDsFilled m =
     map (\<lambda>i. map (\<lambda>x. case x of None \<Rightarrow> i | Some j \<Rightarrow> j) (cellToCellIDs m ! i))
       [0..<length (cellToCellIDs m)]"

text \<open>
  \<^verbatim>\<open>Numeric.argsort\<close>: the indices that sort the keys in ascending order. Equal keys are
  kept in index order here (the insertion sort of the library is stable).
\<close>

definition argsort :: "real list \<Rightarrow> nat list" where
  "argsort ks = sort_key (\<lambda>i. ks ! i) [0..<length ks]"

definition dot :: "real list \<Rightarrow> real list \<Rightarrow> real" where
  "dot a b = sum_list (map2 (*) a b)"

section \<open>The trial value solver\<close>

text \<open>Lines 388 to 419: the solve from the two neighbour slots \<open>index0\<close> and \<open>index1\<close>.\<close>

definition twoNeighbourValue ::
  "mesh \<Rightarrow> real list \<Rightarrow> real list \<Rightarrow> nat \<Rightarrow> nat \<Rightarrow> nat \<Rightarrow> error + real \<times> real" where
  "twoNeighbourValue m val extensionVariable i index0 index1 =
    (let adjIDs = cellToCellIDsFilled m ! i;
         sign = (if val ! i > 0 then 1 else - 1 :: real);
         d0 = filledDistances m ! i ! index0;
         v0 = val ! (adjIDs ! index0);
         e0 = extensionVariable ! (adjIDs ! index0);
         d1 = filledDistances m ! i ! index1;
         n0 = filledNormals m ! i ! index0;
         n1 = filledNormals m ! i ! index1;
         v1 = val ! (adjIDs ! index1)
     in if length n0 < 2 \<or> length n1 < 2 then Inl IndexError
        else
          let crossProd = d0 * d1 * (n0 ! 0 * n1 ! 1 - n0 ! 1 * n1 ! 0);
              dotProd = d0 * d1 * dot n0 n1;
              dsq = d0\<^sup>2 + d1\<^sup>2 - 2 * dotProd;
              top = - v0 * (dotProd - d1\<^sup>2) - v1 * (dotProd - d0\<^sup>2);
              sqrt' = sqrt (max (crossProd\<^sup>2 * (dsq - (v0 - v1)\<^sup>2)) 0)
          in if dsq = 0 then Inl ZeroDivisionError
             else
               let dis = (top + sign * sqrt') / dsq;
                   e1 = extensionVariable ! (adjIDs ! index1);
                   a0 = filledAreas m ! i ! index0;
                   a1 = filledAreas m ! i ! index1;
                   phi = (if val ! i > 0 then max dis 0 else min dis 0)
               in if d0 = 0 \<or> d1 = 0 then Inl ZeroDivisionError
                  else
                    let n0grad = a0 * \<bar>v0 - phi\<bar> / d0;
                        n1grad = a1 * \<bar>v1 - phi\<bar> / d1
                    in if n0grad + n1grad = 0 then Inl ZeroDivisionError
                       else Inr (dis, (e0 * n0grad + e1 * n1grad) / (n0grad + n1grad)))"

text \<open>
  Lines 407 to 419: the blend of the extension values on the slots \<open>index0\<close> and \<open>index1\<close>,
  each weighted by \<open>area * \<bar>value - phi\<bar> / distance\<close>, for a level \<open>phi\<close>.
\<close>

definition weightedExtension ::
  "mesh \<Rightarrow> real list \<Rightarrow> real list \<Rightarrow> nat \<Rightarrow> nat \<Rightarrow> nat \<Rightarrow> real \<Rightarrow> real" where
  "weightedExtension m v x i index0 index1 phi =
     (let adjIDs = cellToCellIDsFilled m ! i;
          n0grad = filledAreas m ! i ! index0 * \<bar>v ! (adjIDs ! index0) - phi\<bar>
                     / (filledDistances m ! i ! index0);
          n1grad = filledAreas m ! i ! index1 * \<bar>v ! (adjIDs ! index1) - phi\<bar>
                     / (filledDistances m ! i ! index1)
      in (x ! (adjIDs ! index0) * n0grad + x ! (adjIDs ! index1) * n1grad) / (n0grad + n1grad))"

text \<open>Lines 354 to 358: the flags of the neighbour slots and the order of the slots.\<close>

definition adjEvaluatedFlag :: "mesh \<Rightarrow> bool list \<Rightarrow> nat \<Rightarrow> bool list" where
  "adjEvaluatedFlag m evaluatedFlag i = map (\<lambda>j. evaluatedFlag ! j) (cellToCellIDsFilled m ! i)"

definition trialIndices :: "mesh \<Rightarrow> real list \<Rightarrow> bool list \<Rightarrow> nat \<Rightarrow> nat list" where
  "trialIndices m val evaluatedFlag i =
     (let adjIDs = cellToCellIDsFilled m ! i;
          adjValues = map (\<lambda>j. if evaluatedFlag ! j then val ! j else 10 ^ 10) adjIDs
      in argsort (map abs adjValues))"

text \<open>Line 363: \<open>N\<close>, the number of neighbour slots whose cell is evaluated.\<close>

definition numEvaluated :: "mesh \<Rightarrow> bool list \<Rightarrow> nat \<Rightarrow> nat" where
  "numEvaluated m evaluatedFlag i = length (filter (\<lambda>f. f) (adjEvaluatedFlag m evaluatedFlag i))"

text \<open>Lines 370 to 376: the cross product of the normals of the two nearest slots.\<close>

definition trialCross :: "mesh \<Rightarrow> nat \<Rightarrow> nat \<Rightarrow> nat \<Rightarrow> real" where
  "trialCross m i index0 index1 =
     (let n0 = filledNormals m ! i ! index0;
          n1 = filledNormals m ! i ! index1
      in if dim m = 2 then n0 ! 0 * n1 ! 1 - n0 ! 1 * n1 ! 0 else 0)"

text \<open>
  The indexing of lines 354 to 367 succeeds on tables of one shape whose IDs are cells: the
  row of the cell has at least two slots and more than \<open>dim\<close> slots, and the four tables
  agree on its length. Anywhere else Python raises before the first branch is taken.
\<close>

definition trialShapeOK :: "mesh \<Rightarrow> real list \<Rightarrow> bool list \<Rightarrow> real list \<Rightarrow> nat \<Rightarrow> bool" where
  "trialShapeOK m val evaluatedFlag extensionVariable i =
     (i < length (cellToCellIDs m) \<and> i < length val
      \<and> i < length (cellToCellDistances m) \<and> i < length (cellNormals m)
      \<and> i < length (cellAreas m)
      \<and> 1 < length (cellToCellIDs m ! i) \<and> dim m < length (cellToCellIDs m ! i)
      \<and> length (cellToCellDistances m ! i) = length (cellToCellIDs m ! i)
      \<and> length (cellNormals m ! i) = length (cellToCellIDs m ! i)
      \<and> length (cellAreas m ! i) = length (cellToCellIDs m ! i)
      \<and> list_all (\<lambda>n. case n of None \<Rightarrow> True | Some v \<Rightarrow> length v = dim m) (cellNormals m ! i)
      \<and> list_all (\<lambda>j. j < length val \<and> j < length evaluatedFlag \<and> j < length extensionVariable)
            (cellToCellIDsFilled m ! i))"

text \<open>
  Lines 369 to 382: with more than one evaluated slot and near-parallel normals (the cross
  product below \<open>0.1\<close>), two evaluated slots count as one and, of three, the slot at position
  \<open>dim\<close> of the order replaces the second. The result is the pair \<open>(N, index1)\<close>.
\<close>

definition selectNeighbours :: "mesh \<Rightarrow> nat \<Rightarrow> nat \<Rightarrow> nat list \<Rightarrow> nat \<times> nat" where
  "selectNeighbours m i N indices =
     (let index0 = indices ! 0;
          index1 = indices ! 1;
          index2 = indices ! dim m
      in if N > 1 then
           (if \<bar>trialCross m i index0 index1\<bar> < 1 / 10 then
              (if N = 2 then (1, index1)
               else if N = 3 then (N, index2)
               else (N, index1))
            else (N, index1))
         else (N, index1))"

text \<open>\<^verbatim>\<open>_calcTrialValue\<close>, lines 353 to 419.\<close>

definition calcTrialValue ::
  "mesh \<Rightarrow> real list \<Rightarrow> nat \<Rightarrow> bool list \<Rightarrow> real list \<Rightarrow> error + real \<times> real" where
  "calcTrialValue m val i evaluatedFlag extensionVariable =
    (if \<not> trialShapeOK m val evaluatedFlag extensionVariable i then Inl IndexError
     else
       let adjIDs = cellToCellIDsFilled m ! i;
           indices = trialIndices m val evaluatedFlag i;
           sign = (if val ! i > 0 then 1 else - 1 :: real);
           d0 = filledDistances m ! i ! (indices ! 0);
           v0 = val ! (adjIDs ! (indices ! 0));
           e0 = extensionVariable ! (adjIDs ! (indices ! 0));
           N = numEvaluated m evaluatedFlag i;
           index0 = indices ! 0;
           (N', index1) = selectNeighbours m i N indices
       in if N' = 0 then Inl ConfigurationError
          else if N' = 1 then Inr (v0 + sign * d0, e0)
          else twoNeighbourValue m val extensionVariable i index0 index1)"

section \<open>The interface locator\<close>

text \<open>
  Lines 258/259 and 264/265: the values of the neighbours, masked where the slot is masked and
  where the neighbour has the sign of the cell (the product of the two values is positive).
\<close>

definition adjInterfaceValues :: "mesh \<Rightarrow> real list \<Rightarrow> nat \<Rightarrow> real option list" where
  "adjInterfaceValues m val i =
     map (\<lambda>a. case a of None \<Rightarrow> None
               | Some j \<Rightarrow> if val ! j * val ! i > 0 then None else Some (val ! j))
       (cellToCellIDs m ! i)"

definition masksum :: "'a option list \<Rightarrow> nat" where
  "masksum row = length (filter (\<lambda>x. case x of None \<Rightarrow> False | Some v \<Rightarrow> True) row)"

text \<open>Lines 257 to 262: the delete-islands pass.\<close>

definition deleteIslandsPass :: "mesh \<Rightarrow> real list \<Rightarrow> real list" where
  "deleteIslandsPass m val =
     map (\<lambda>i. if masksum (adjInterfaceValues m val i) = 4 \<and> val ! i > 0 then - 1 else val ! i)
       [0..<length val]"

text \<open>
  Line 267: the distance of the cell centre to the crossing, on each slot that is not masked.
  The division of \<^verbatim>\<open>MA\<close> masks an entry whose divisor is zero.
\<close>

definition distancesRow :: "mesh \<Rightarrow> real list \<Rightarrow> nat \<Rightarrow> real option list" where
  "distancesRow m val i =
     map2 (\<lambda>dAP adj. case dAP of None \<Rightarrow> None
             | Some d \<Rightarrow> (case adj of None \<Rightarrow> None
                 | Some a \<Rightarrow> if val ! i - a = 0 then None
                            else Some \<bar>val ! i * d / (val ! i - a)\<bar>))
       (cellToCellDistances m ! i) (adjInterfaceValues m val i)"

text \<open>Line 268: \<^verbatim>\<open>MA.argsort\<close> sorts with the masked entries filled by \<open>1e20\<close>.\<close>

definition MAargsort :: "real option list \<Rightarrow> nat list" where
  "MAargsort row = argsort (map (\<lambda>x. case x of None \<Rightarrow> 10 ^ 20 | Some v \<Rightarrow> v) row)"

text \<open>
  The quotient \<open>sign * s * t / sqrt (s\<^sup>2 + t\<^sup>2)\<close> of lines 288 and 291; \<^verbatim>\<open>MA\<close> masks it
  where the root is zero.
\<close>

definition combine :: "real \<Rightarrow> real \<Rightarrow> real \<Rightarrow> real option" where
  "combine sign s t = (if sqrt (s\<^sup>2 + t\<^sup>2) = 0 then None else Some (sign * s * t / sqrt (s\<^sup>2 + t\<^sup>2)))"

text \<open>Lines 269 to 299, for one cell.\<close>

definition signedDistance :: "mesh \<Rightarrow> real list \<Rightarrow> nat \<Rightarrow> real option" where
  "signedDistance m val i =
    (let distances = distancesRow m val i;
         indices = MAargsort distances;
         sign = (if val ! i > 0 then 1 else - 1 :: real);
         s = distances ! (indices ! 0)
     in if dim m = 2 then
          (let t = distances ! (indices ! 1);
               u = distances ! (indices ! 2);
               ns = filledNormals m ! i ! (indices ! 0);
               nt = filledNormals m ! i ! (indices ! 1)
           in case s of None \<Rightarrow> Some (val ! i)
              | Some s' \<Rightarrow> (case t of None \<Rightarrow> Some (sign * s')
                  | Some t' \<Rightarrow>
                      if \<bar>dot ns nt\<bar> < 9 / 10 then combine sign s' t'
                      else (case u of None \<Rightarrow> Some (sign * s')
                             | Some u' \<Rightarrow> combine sign s' u')))
        else (case s of None \<Rightarrow> Some (val ! i) | Some s' \<Rightarrow> Some (sign * s')))"

text \<open>Lines 305/306: a cell is an interface cell when one of its distances is not masked.\<close>

definition interfaceFlag :: "mesh \<Rightarrow> real list \<Rightarrow> bool list" where
  "interfaceFlag m val = map (\<lambda>i. masksum (distancesRow m val i) > 0) [0..<length val]"

section \<open>The narrow-band propagator\<close>

text \<open>
  The arrays the propagation loop works on: the field, the extension field, the evaluated
  flags and the list of trial cells. The last two fields are history only: they record, latest
  first, the cells the loop accepted and the cells it gave a trial value; nothing reads them.
\<close>

record marching =
  val :: "real list"
  ext :: "real list"
  evaluatedFlag :: "bool list"
  trialIDs :: "nat list"
  accepted :: "nat list"
  assigned :: "nat list"

text \<open>\<^verbatim>\<open>Numeric.argmin\<close>: the position of the least entry, the first one among equals.\<close>

fun argminFrom :: "nat \<Rightarrow> real \<Rightarrow> nat \<Rightarrow> real list \<Rightarrow> nat" where
  "argminFrom best b k [] = best"
| "argminFrom best b k (x # xs) =
     (if x < b then argminFrom k x (Suc k) xs else argminFrom best b (Suc k) xs)"

definition argmin :: "real list \<Rightarrow> nat" where
  "argmin xs = (case xs of [] \<Rightarrow> 0 | x # xs' \<Rightarrow> argminFrom 0 x 1 xs')"

text \<open>
  Lines 341 to 346: every neighbour of the accepted cell that is not evaluated gets a new trial
  value and joins the trial cells unless it is one already.
\<close>

fun relax :: "mesh \<Rightarrow> marching \<Rightarrow> nat option list \<Rightarrow> error + marching" where
  "relax m st [] = Inr st"
| "relax m st (None # adjs) = relax m st adjs"
| "relax m st (Some adjID # adjs) =
     (if \<not> adjID < length (evaluatedFlag st) then Inl IndexError
      else if \<not> evaluatedFlag st ! adjID then
        (case calcTrialValue m (val st) adjID (evaluatedFlag st) (ext st) of
           Inl e \<Rightarrow> Inl e
         | Inr (v, x) \<Rightarrow>
             if \<not> adjID < length (ext st) then Inl IndexError
             else relax m
               (st\<lparr>val := (val st)[adjID := v], ext := (ext st)[adjID := x],
                   trialIDs := (if adjID \<in> set (trialIDs st) then trialIDs st
                                else trialIDs st @ [adjID]),
                   assigned := adjID # assigned st\<rparr>) adjs)
      else relax m st adjs)"

text \<open>
  Lines 337 to 346, one turn of the loop on a list of trial cells that is not empty: the trial
  cell of least magnitude is accepted and its neighbours are relaxed. The accepted cell is
  returned with the new arrays.
\<close>

definition marchStep :: "mesh \<Rightarrow> marching \<Rightarrow> error + nat \<times> marching" where
  "marchStep m st =
     (if \<not> list_all (\<lambda>j. j < length (val st)) (trialIDs st) then Inl IndexError
      else
        let i = trialIDs st ! argmin (map (\<lambda>j. \<bar>val st ! j\<bar>) (trialIDs st))
        in if \<not> i < length (evaluatedFlag st) \<or> \<not> i < length (cellToCellIDs m)
           then Inl IndexError
           else
             (case relax m
                     (st\<lparr>trialIDs := remove1 i (trialIDs st),
                         evaluatedFlag := (evaluatedFlag st)[i := True],
                         accepted := i # accepted st\<rparr>)
                     (cellToCellIDs m ! i) of
                Inl e \<Rightarrow> Inl e
              | Inr st' \<Rightarrow> Inr (i, st')))"

text \<open>Facts for the termination of the loop.\<close>

lemma argminFrom_bound: "best < k \<Longrightarrow> argminFrom best b k xs < k + length xs"
proof (induction xs arbitrary: best b k)
  case Nil
  then show ?case by simp
next
  case (Cons x xs)
  have "argminFrom k x (Suc k) xs < Suc k + length xs"
    by (rule Cons.IH) simp
  moreover have "argminFrom best b (Suc k) xs < Suc k + length xs"
    by (rule Cons.IH) (use Cons.prems in simp)
  ultimately show ?case by simp
qed

lemma argmin_less: "xs \<noteq> [] \<Longrightarrow> argmin xs < length xs"
  using argminFrom_bound [of 0 1] by (cases xs) (auto simp: argmin_def)

lemma relax_flags:
  "relax m st adjs = Inr st' \<Longrightarrow>
     evaluatedFlag st' = evaluatedFlag st \<and> accepted st' = accepted st \<and>
     filter (\<lambda>j. evaluatedFlag st ! j) (trialIDs st') = filter (\<lambda>j. evaluatedFlag st ! j) (trialIDs st)"
proof (induction adjs arbitrary: st)
  case Nil
  then show ?case by simp
next
  case (Cons a adjs)
  show ?case
  proof (cases a)
    case None
    with Cons show ?thesis by simp
  next
    case (Some adjID)
    show ?thesis
    proof (cases "evaluatedFlag st ! adjID")
      case True
      with Cons Some show ?thesis by (simp split: if_splits)
    next
      case False
      with Cons.prems Some obtain v x where
        r: "relax m (st\<lparr>val := (val st)[adjID := v], ext := (ext st)[adjID := x],
                   trialIDs := (if adjID \<in> set (trialIDs st) then trialIDs st
                                else trialIDs st @ [adjID]),
                   assigned := adjID # assigned st\<rparr>) adjs = Inr st'"
        by (auto split: if_splits sum.splits)
      from Cons.IH [OF r] False show ?thesis by simp
    qed
  qed
qed

lemma filter_remove1_less:
  "x \<in> set xs \<Longrightarrow> P x \<Longrightarrow> length (filter P (remove1 x xs)) < length (filter P xs)"
  by (induction xs) auto

lemma unevaluated_update_less:
  "i < length fs \<Longrightarrow> \<not> fs ! i \<Longrightarrow>
     length (filter Not (fs[i := True])) < length (filter Not fs)"
proof (induction fs arbitrary: i)
  case Nil
  then show ?case by simp
next
  case (Cons f fs)
  then show ?case by (cases i) auto
qed

lemma marchStep_decreases:
  assumes "trialIDs st \<noteq> []" and "marchStep m st = Inr (i, st')"
  shows "((length (filter Not (evaluatedFlag st')),
           length (filter (\<lambda>j. evaluatedFlag st' ! j) (trialIDs st'))),
          (length (filter Not (evaluatedFlag st)),
           length (filter (\<lambda>j. evaluatedFlag st ! j) (trialIDs st))))
         \<in> less_than <*lex*> less_than"
proof -
  define k where "k = argmin (map (\<lambda>j. \<bar>val st ! j\<bar>) (trialIDs st))"
  have kl: "k < length (trialIDs st)"
    using argmin_less [of "map (\<lambda>j. \<bar>val st ! j\<bar>) (trialIDs st)"] assms(1) by (simp add: k_def)
  from assms(2) have i: "i = trialIDs st ! k" and il: "i < length (evaluatedFlag st)"
    and r: "relax m (st\<lparr>trialIDs := remove1 i (trialIDs st),
                         evaluatedFlag := (evaluatedFlag st)[i := True],
                         accepted := i # accepted st\<rparr>) (cellToCellIDs m ! i) = Inr st'"
    by (auto simp: marchStep_def Let_def k_def split: if_splits sum.splits)
  from i kl have mem: "i \<in> set (trialIDs st)" by simp
  from relax_flags [OF r] have
    f: "evaluatedFlag st' = (evaluatedFlag st)[i := True]"
    and t: "filter (\<lambda>j. (evaluatedFlag st)[i := True] ! j) (trialIDs st') =
            filter (\<lambda>j. (evaluatedFlag st)[i := True] ! j) (remove1 i (trialIDs st))"
    by simp_all
  show ?thesis
  proof (cases "evaluatedFlag st ! i")
    case True
    then have same: "(evaluatedFlag st)[i := True] = evaluatedFlag st"
      by (simp add: list_update_same_conv il)
    have "length (filter (\<lambda>j. evaluatedFlag st ! j) (remove1 i (trialIDs st)))
          < length (filter (\<lambda>j. evaluatedFlag st ! j) (trialIDs st))"
      using mem True by (rule filter_remove1_less)
    with f t same show ?thesis by simp
  next
    case False
    have "length (filter Not ((evaluatedFlag st)[i := True])) < length (filter Not (evaluatedFlag st))"
      using il False by (rule unevaluated_update_less)
    with f show ?thesis by simp
  qed
qed

text \<open>
  Lines 335 to 349: the loop. It runs while there are trial cells, and leaves after a turn
  whose accepted cell has a magnitude above half the band width. Every turn evaluates a cell
  that was not evaluated, or removes an evaluated cell from the trial cells for good, so the
  loop is a total function.
\<close>

function march :: "mesh \<Rightarrow> real \<Rightarrow> marching \<Rightarrow> error + marching" where
  "march m w st =
     (if trialIDs st = [] then Inr st
      else (case marchStep m st of
              Inl e \<Rightarrow> Inl e
            | Inr (i, st') \<Rightarrow> if \<bar>val st' ! i\<bar> > w / 2 then Inr st' else march m w st'))"
  by pat_completeness auto
termination
proof (relation "inv_image (less_than <*lex*> less_than)
    (\<lambda>(m, w, st). (length (filter Not (evaluatedFlag st)),
                     length (filter (\<lambda>j. evaluatedFlag st ! j) (trialIDs st))))")
  show "wf (inv_image (less_than <*lex*> less_than)
    (\<lambda>(m :: mesh, w :: real, st). (length (filter Not (evaluatedFlag st)),
                     length (filter (\<lambda>j. evaluatedFlag st ! j) (trialIDs st)))))"
    by (intro wf_inv_image wf_lex_prod wf_less_than)
next
  fix m :: mesh and w :: real and st x2 i st'
  assume "trialIDs st \<noteq> []" "marchStep m st = Inr x2" "(i, st') = x2"
  then have "marchStep m st = Inr (i, st')" by simp
  from marchStep_decreases [OF \<open>trialIDs st \<noteq> []\<close> this]
  show "((m, w, st'), m, w, st) \<in> inv_image (less_than <*lex*> less_than)
    (\<lambda>(m, w, st). (length (filter Not (evaluatedFlag st)),
                     length (filter (\<lambda>j. evaluatedFlag st ! j) (trialIDs st))))"
    by simp
qed

declare march.simps [simp del]

section \<open>The distance function pass\<close>

text \<open>
  The object: the mesh with the arrays cached from it, the field \<^verbatim>\<open>self.value\<close>, its
  saved copy \<^verbatim>\<open>self.tmpValue\<close> and the band width.
\<close>

record distanceVariable =
  mesh :: mesh
  value' :: "real list"
  tmpValue :: "real list"
  narrowBandWidth :: real

text \<open>
  The arrays of the mesh have one shape: a row for every cell of the field, the same number
  of slots in every row (three at least on a mesh of dimension 2, whose third candidate is
  read), neighbour IDs that are cells, normals of \<open>dim\<close> components. On anything else the
  array operations of the locator fail.
\<close>

definition passShapeOK :: "mesh \<Rightarrow> real list \<Rightarrow> bool" where
  "passShapeOK m v =
     (let n = length v; M = length (cellToCellIDs m ! 0)
      in 0 < n \<and> length (cellToCellIDs m) = n \<and> length (cellToCellDistances m) = n
         \<and> length (cellNormals m) = n \<and> length (cellAreas m) = n
         \<and> 0 < M \<and> (if dim m = 2 then 2 < M else True)
         \<and> list_all (\<lambda>i. length (cellToCellIDs m ! i) = M
                 \<and> length (cellToCellDistances m ! i) = M
                 \<and> length (cellNormals m ! i) = M
                 \<and> length (cellAreas m ! i) = M
                 \<and> list_all (\<lambda>a. case a of None \<Rightarrow> True | Some j \<Rightarrow> j < n) (cellToCellIDs m ! i)
                 \<and> list_all (\<lambda>x. case x of None \<Rightarrow> True | Some nv \<Rightarrow> length nv = dim m)
                      (cellNormals m ! i))
               [0..<n])"

text \<open>
  A masked array is converted to a plain one at line 316; \<^verbatim>\<open>MA\<close> refuses the conversion when
  an entry is masked.
\<close>

fun plain :: "'a option list \<Rightarrow> error + 'a list" where
  "plain [] = Inr []"
| "plain (None # xs) = Inl MAError"
| "plain (Some v # xs) = (case plain xs of Inl e \<Rightarrow> Inl e | Inr vs \<Rightarrow> Inr (v # vs))"

text \<open>
  Lines 257 to 306: the optional delete-islands pass, then the signed distance of every cell
  and the interface flags, both computed from the field as the pass left it.
\<close>

definition locate :: "mesh \<Rightarrow> real list \<Rightarrow> bool \<Rightarrow> error + real list \<times> bool list" where
  "locate m v deleteIslands =
     (let value1 = (if deleteIslands then deleteIslandsPass m v else v)
      in case plain (map (signedDistance m value1) [0..<length value1]) of
           Inl e \<Rightarrow> Inl e
         | Inr value2 \<Rightarrow> Inr (value2, interfaceFlag m value1))"

text \<open>Lines 319/320: the extension values of the negative interface cells.\<close>

fun spreadExtension ::
  "mesh \<Rightarrow> real list \<Rightarrow> bool list \<Rightarrow> real list \<Rightarrow> nat list \<Rightarrow> error + real list" where
  "spreadExtension m v positiveInterfaceFlag extensionVariable [] = Inr extensionVariable"
| "spreadExtension m v positiveInterfaceFlag extensionVariable (i # ids) =
     (case calcTrialValue m v i positiveInterfaceFlag extensionVariable of
        Inl e \<Rightarrow> Inl e
      | Inr (tmp, x) \<Rightarrow>
          if \<not> i < length extensionVariable then Inl IndexError
          else spreadExtension m v positiveInterfaceFlag (extensionVariable[i := x]) ids)"

text \<open>Lines 332/333: the first trial values, from the interface cells only.\<close>

fun seedTrial ::
  "mesh \<Rightarrow> bool list \<Rightarrow> real list \<times> real list \<Rightarrow> nat list \<Rightarrow> error + real list \<times> real list" where
  "seedTrial m evaluated (v, extensionVariable) [] = Inr (v, extensionVariable)"
| "seedTrial m evaluated (v, extensionVariable) (i # ids) =
     (case calcTrialValue m v i evaluated extensionVariable of
        Inl e \<Rightarrow> Inl e
      | Inr (d, x) \<Rightarrow>
          if \<not> i < length extensionVariable then Inl IndexError
          else seedTrial m evaluated (v[i := d], extensionVariable[i := x]) ids)"

text \<open>Lines 326/327: a cell has an interface cell among its neighbours.\<close>

definition hasAdjInterface :: "mesh \<Rightarrow> bool list \<Rightarrow> nat \<Rightarrow> bool" where
  "hasAdjInterface m flags i =
     list_ex (\<lambda>a. case a of None \<Rightarrow> False | Some j \<Rightarrow> flags ! j) (cellToCellIDs m ! i)"

text \<open>Lines 326 to 349: the trial cells, their first values, and the loop.\<close>

definition propagate ::
  "mesh \<Rightarrow> real \<Rightarrow> real list \<Rightarrow> real list \<Rightarrow> bool list \<Rightarrow> error + marching" where
  "propagate m w v extensionVariable flags =
     (let trial = filter (\<lambda>i. \<not> flags ! i \<and> hasAdjInterface m flags i) [0..<length flags]
      in case seedTrial m flags (v, extensionVariable) trial of
           Inl e \<Rightarrow> Inl e
         | Inr (v', x') \<Rightarrow>
             march m w \<lparr>val = v', ext = x', evaluatedFlag = flags, trialIDs = trial,
                        accepted = [], assigned = []\<rparr>)"

text \<open>
  \<^verbatim>\<open>_calcDistanceFunction\<close>, lines 248 to 351. With an extension variable the field is
  reset to the saved copy once the interface is located (line 323). The result is the object
  and the extension array as the call leaves them.
\<close>

definition internal_calcDistanceFunction ::
  "distanceVariable \<Rightarrow> real list option \<Rightarrow> real option \<Rightarrow> bool
     \<Rightarrow> error + distanceVariable \<times> real list" where
  "internal_calcDistanceFunction dv extensionVariable width deleteIslands =
     (let w = (case width of None \<Rightarrow> narrowBandWidth dv | Some w' \<Rightarrow> w');
          n = length (value' dv)
      in if \<not> passShapeOK (mesh dv) (value' dv)
            \<or> (case extensionVariable of None \<Rightarrow> False
                 | Some x \<Rightarrow> length x \<noteq> n \<or> length (tmpValue dv) \<noteq> n)
         then Inl IndexError
         else
           (case locate (mesh dv) (value' dv) deleteIslands of
              Inl e \<Rightarrow> Inl e
            | Inr (value2, flags) \<Rightarrow>
                let ext0 = (case extensionVariable of None \<Rightarrow> replicate n 0 | Some x \<Rightarrow> x);
                    positiveInterfaceFlag = map (\<lambda>i. value2 ! i > 0 \<and> flags ! i) [0..<n];
                    negativeInterfaceIDs = filter (\<lambda>i. value2 ! i < 0 \<and> flags ! i) [0..<n]
                in (case spreadExtension (mesh dv) value2 positiveInterfaceFlag ext0
                           negativeInterfaceIDs of
                      Inl e \<Rightarrow> Inl e
                    | Inr ext1 \<Rightarrow>
                        let value3 = (case extensionVariable of None \<Rightarrow> value2
                                      | Some x \<Rightarrow> tmpValue dv)
                        in (case propagate (mesh dv) w value3 ext1 flags of
                              Inl e \<Rightarrow> Inl e
                            | Inr st \<Rightarrow> Inr (dv\<lparr>value' := val st\<rparr>, ext st)))))"

text \<open>\<^verbatim>\<open>calcDistanceFunction\<close>, lines 234 to 246.\<close>

definition calcDistanceFunction ::
  "distanceVariable \<Rightarrow> real option \<Rightarrow> bool \<Rightarrow> error + distanceVariable" where
  "calcDistanceFunction dv width deleteIslands =
     (case internal_calcDistanceFunction dv None width deleteIslands of
        Inl e \<Rightarrow> Inl e
      | Inr (dv', x) \<Rightarrow> Inr dv')"

text \<open>
  \<^verbatim>\<open>extendVariable\<close>, lines 214 to 232: the field is saved, the pass runs on a copy of the
  extension variable, the copy is written back into the caller's array and the field is
  restored. The result is the object and the caller's array.
\<close>

definition extendVariable ::
  "distanceVariable \<Rightarrow> real list \<Rightarrow> bool \<Rightarrow> error + distanceVariable \<times> real list" where
  "extendVariable dv extensionVariable deleteIslands =
     (let dv1 = dv\<lparr>tmpValue := value' dv\<rparr>
      in case internal_calcDistanceFunction dv1 (Some extensionVariable) None deleteIslands of
           Inl e \<Rightarrow> Inl e
         | Inr (dv2, numericExtensionVariable) \<Rightarrow>
             Inr (dv2\<lparr>value' := tmpValue dv2\<rparr>, numericExtensionVariable))"

text \<open>
  Modelled from the spec: the mesh classes are not part of the sources at hand. The uniform
  1-D mesh of \<open>nx\<close> cells with spacing \<open>dx\<close>: every cell has a left and a right slot, the
  outer slot of the first and of the last cell is masked.
\<close>

definition Grid1D :: "real \<Rightarrow> nat \<Rightarrow> mesh" where
  "Grid1D dx nx =
     \<lparr>dim = 1,
      cellToCellIDs = map (\<lambda>i. [if i = 0 then None else Some (i - 1),
                                 if Suc i < nx then Some (Suc i) else None]) [0..<nx],
      cellToCellDistances = map (\<lambda>i. [if i = 0 then None else Some dx,
                                       if Suc i < nx then Some dx else None]) [0..<nx],
      cellNormals = map (\<lambda>i. [Some [- 1], Some [1]]) [0..<nx],
      cellAreas = map (\<lambda>i. [Some 1, Some 1]) [0..<nx]\<rparr>"

text \<open>
  Modelled from the spec: the uniform 2-D mesh of \<open>nx\<close> by \<open>ny\<close> rectangular cells of size
  \<open>dx\<close> by \<open>dy\<close>, numbered row by row. The slots of a cell are its bottom, right, top and
  left faces; a slot on the boundary of the mesh has no neighbour and is masked.
\<close>

definition Grid2D :: "real \<Rightarrow> real \<Rightarrow> nat \<Rightarrow> nat \<Rightarrow> mesh" where
  "Grid2D dx dy nx ny =
     \<lparr>dim = 2,
      cellToCellIDs =
        map (\<lambda>c. [if c div nx = 0 then None else Some (c - nx),
                   if Suc (c mod nx) < nx then Some (Suc c) else None,
                   if Suc (c div nx) < ny then Some (c + nx) else None,
                   if c mod nx = 0 then None else Some (c - 1)]) [0..<nx * ny],
      cellToCellDistances =
        map (\<lambda>c. [if c div nx = 0 then None else Some dy,
                   if Suc (c mod nx) < nx then Some dx else None,
                   if Suc (c div nx) < ny then Some dy else None,
                   if c mod nx = 0 then None else Some dx]) [0..<nx * ny],
      cellNormals =
        map (\<lambda>c. [Some [0, - 1], Some [1, 0], Some [0, 1], Some [- 1, 0]]) [0..<nx * ny],
      cellAreas = map (\<lambda>c. [Some dx, Some dy, Some dx, Some dy]) [0..<nx * ny]\<rparr>"

text \<open>
  A cell with four neighbours in a mesh of dimension 3: cell \<open>0\<close> has the neighbours
  \<open>1, 2, 3, 4\<close>, on slots with the normals shown; every other cell has cell \<open>0\<close> as its only
  neighbour.
\<close>

definition mesh3D :: mesh where
  "mesh3D =
     \<lparr>dim = 3,
      cellToCellIDs =
        [[Some 1, Some 2, Some 3, Some 4], [Some 0, None, None, None], [Some 0, None, None, None],
         [Some 0, None, None, None], [Some 0, None, None, None]],
      cellToCellDistances =
        [[Some 1, Some 1, Some 1, Some 2], [Some 1, None, None, None], [Some 1, None, None, None],
         [Some 1, None, None, None], [Some 2, None, None, None]],
      cellNormals =
        [[Some [1, 0, 0], Some [0, 0, 1], Some [- 1, 0, 0], Some [0, 1, 0]],
         [Some [- 1, 0, 0], None, None, None], [Some [0, 0, - 1], None, None, None],
         [Some [1, 0, 0], None, None, None], [Some [0, - 1, 0], None, None, None]],
      cellAreas =
        [[Some 1, Some 1, Some 1, Some 1], [Some 1, None, None, None], [Some 1, None, None, None],
         [Some 1, None, None, None], [Some 1, None, None, None]]\<rparr>"

section \<open>Facts about the trial value solver\<close>

text \<open>
  On tables of the right shape the solver reads its slots inside the arrays, and its result is
  decided by the pair \<open>(N, index1)\<close> of \<^const>\<open>selectNeighbours\<close>.
\<close>

lemma calcTrialValue_unfold:
  assumes "trialShapeOK m v f x i"
  shows "calcTrialValue m v i f x =
    (let indices = trialIndices m v f i;
         sel = selectNeighbours m i (numEvaluated m f i) indices
     in if fst sel = 0 then Inl ConfigurationError
        else if fst sel = 1 then
          Inr (v ! (cellToCellIDsFilled m ! i ! (indices ! 0))
                 + (if v ! i > 0 then 1 else - 1) * (filledDistances m ! i ! (indices ! 0)),
               x ! (cellToCellIDsFilled m ! i ! (indices ! 0)))
        else twoNeighbourValue m v x i (indices ! 0) (snd sel))"
  using assms by (simp add: calcTrialValue_def Let_def split: prod.splits)

lemma dot2: "dot [a, b] [c, d] = a * c + b * d"
  by (simp add: dot_def)

lemma dsq_pos:
  fixes d0 d1 :: real
  assumes "0 < d0" "0 < d1" "a\<^sup>2 + b\<^sup>2 = 1" "c\<^sup>2 + d\<^sup>2 = 1" "a * d - b * c \<noteq> 0"
  shows "0 < d0\<^sup>2 + d1\<^sup>2 - 2 * (d0 * d1 * (a * c + b * d))"
proof -
  have lag: "(a * c + b * d)\<^sup>2 + (a * d - b * c)\<^sup>2 = (a\<^sup>2 + b\<^sup>2) * (c\<^sup>2 + d\<^sup>2)"
    by (simp add: power2_eq_square algebra_simps)
  have pos: "0 < (a * d - b * c)\<^sup>2" using assms(5) by simp
  have "(a * c + b * d)\<^sup>2 + (a * d - b * c)\<^sup>2 = 1"
    unfolding lag assms(3,4) by simp
  with pos have "(a * c + b * d)\<^sup>2 < 1" by linarith
  then have "\<bar>a * c + b * d\<bar> < 1" by (simp add: abs_square_less_1)
  then have lt: "a * c + b * d < 1" by linarith
  have "d0\<^sup>2 + d1\<^sup>2 - 2 * (d0 * d1 * (a * c + b * d)) = (d0 - d1)\<^sup>2 + 2 * d0 * d1 * (1 - (a * c + b * d))"
    by (simp add: power2_eq_square algebra_simps)
  moreover have "0 < 2 * d0 * d1 * (1 - (a * c + b * d))" using assms(1,2) lt by simp
  moreover have "0 \<le> (d0 - d1)\<^sup>2" by simp
  ultimately show ?thesis by linarith
qed


lemma weights_nonzero:
  fixes d0 d1 a0 a1 v0 v1 dp cp :: real
  assumes d: "0 < d0" "0 < d1" and a: "0 < a0" "0 < a1"
    and dsq: "0 < d0\<^sup>2 + d1\<^sup>2 - 2 * dp" and cp: "cp \<noteq> 0"
    and dis: "dis = (- v0 * (dp - d1\<^sup>2) - v1 * (dp - d0\<^sup>2)
                     + sg * sqrt (max (cp\<^sup>2 * (d0\<^sup>2 + d1\<^sup>2 - 2 * dp - (v0 - v1)\<^sup>2)) 0))
                    / (d0\<^sup>2 + d1\<^sup>2 - 2 * dp)"
    and phi: "phi = (if pos then max dis 0 else min dis 0)"
    and sg: "sg = (if pos then 1 else - 1)"
  shows "a0 * \<bar>v0 - phi\<bar> / d0 + a1 * \<bar>v1 - phi\<bar> / d1 \<noteq> 0"
proof
  assume z: "a0 * \<bar>v0 - phi\<bar> / d0 + a1 * \<bar>v1 - phi\<bar> / d1 = 0"
  have n0: "0 \<le> a0 * \<bar>v0 - phi\<bar> / d0" using d a by simp
  have n1: "0 \<le> a1 * \<bar>v1 - phi\<bar> / d1" using d a by simp
  from z n0 n1 have "a0 * \<bar>v0 - phi\<bar> / d0 = 0" "a1 * \<bar>v1 - phi\<bar> / d1 = 0" by linarith+
  with d a have e: "v0 = phi" "v1 = phi" by simp_all
  then have v: "v1 = v0" by simp
  define q where "q = d0\<^sup>2 + d1\<^sup>2 - 2 * dp"
  have q: "0 < q" using dsq by (simp add: q_def)
  have topq: "- v0 * (dp - d1\<^sup>2) - v0 * (dp - d0\<^sup>2) = v0 * q"
    by (simp add: q_def algebra_simps)
  have "0 < cp\<^sup>2 * q" using cp q by simp
  then have r: "0 < sqrt (max (cp\<^sup>2 * q) 0)" by simp
  have disq: "dis = v0 + sg * sqrt (max (cp\<^sup>2 * q) 0) / q"
    using q unfolding dis v q_def [symmetric] topq by (simp add: field_simps)
  have s: "0 < sqrt (max (cp\<^sup>2 * q) 0) / q" using r q by simp
  show False
  proof (cases pos)
    case True
    with disq s sg have "v0 < dis" by simp
    with phi True have "v0 < phi" by simp
    with e show False by simp
  next
    case False
    with disq s sg have "dis < v0" by simp
    with phi False have "phi < v0" by simp
    with e show False by simp
  qed
qed


lemma argsort_length [simp]: "length (argsort ks) = length ks"
  by (simp add: argsort_def)

lemma argsort_nth_less: "k < length ks \<Longrightarrow> argsort ks ! k < length ks"
proof -
  assume "k < length ks"
  then have "argsort ks ! k \<in> set (argsort ks)" by simp
  then show ?thesis by (simp add: argsort_def)
qed

lemma trialIndices_less:
  assumes "trialShapeOK m v f x i" and "k < length (cellToCellIDs m ! i)"
  shows "trialIndices m v f i ! k < length (cellToCellIDs m ! i)"
proof -
  from assms(1) have "i < length (cellToCellIDs m)" by (simp add: trialShapeOK_def)
  then have len: "length (cellToCellIDsFilled m ! i) = length (cellToCellIDs m ! i)"
    by (simp add: cellToCellIDsFilled_def)
  show ?thesis
    using argsort_nth_less [of k "map abs (map (\<lambda>j. if f ! j then v ! j else 10 ^ 10)
        (cellToCellIDsFilled m ! i))"] assms(2) len
    by (simp add: trialIndices_def)
qed

lemma filledNormals_length:
  assumes "trialShapeOK m v f x i" and "s < length (cellToCellIDs m ! i)"
  shows "length (filledNormals m ! i ! s) = dim m"
proof -
  from assms have i: "i < length (cellNormals m)" and s: "s < length (cellNormals m ! i)"
    and all: "list_all (\<lambda>n. case n of None \<Rightarrow> True | Some v \<Rightarrow> length v = dim m) (cellNormals m ! i)"
    by (simp_all add: trialShapeOK_def)
  from all s have "case cellNormals m ! i ! s of None \<Rightarrow> True | Some v \<Rightarrow> length v = dim m"
    by (simp add: list_all_length)
  with i s show ?thesis
    by (simp add: filledNormals_def filled_def split: option.splits)
qed

lemma list2: "length xs = 2 \<Longrightarrow> xs = [xs ! 0, xs ! 1]"
  by (cases xs; cases "tl xs") auto

lemma dot_length2: "length a = 2 \<Longrightarrow> length b = 2 \<Longrightarrow> dot a b = a ! 0 * b ! 0 + a ! 1 * b ! 1"
  using list2 [of a] list2 [of b] dot2 [of "a ! 0" "a ! 1" "b ! 0" "b ! 1"] by simp


lemma twoNeighbourValue_returns:
  fixes m v x i s0 s1
  defines "adjIDs \<equiv> cellToCellIDsFilled m ! i"
  defines "d0 \<equiv> filledDistances m ! i ! s0" and "d1 \<equiv> filledDistances m ! i ! s1"
  defines "n0 \<equiv> filledNormals m ! i ! s0" and "n1 \<equiv> filledNormals m ! i ! s1"
  defines "a0 \<equiv> filledAreas m ! i ! s0" and "a1 \<equiv> filledAreas m ! i ! s1"
  defines "v0 \<equiv> v ! (adjIDs ! s0)" and "v1 \<equiv> v ! (adjIDs ! s1)"
  defines "sign \<equiv> (if v ! i > 0 then 1 else - 1 :: real)"
  defines "dotProd \<equiv> d0 * d1 * dot n0 n1"
  defines "crossProd \<equiv> d0 * d1 * (n0 ! 0 * n1 ! 1 - n0 ! 1 * n1 ! 0)"
  defines "dsq \<equiv> d0\<^sup>2 + d1\<^sup>2 - 2 * dotProd"
  defines "dis \<equiv> (- v0 * (dotProd - d1\<^sup>2) - v1 * (dotProd - d0\<^sup>2)
                    + sign * sqrt (max (crossProd\<^sup>2 * (dsq - (v0 - v1)\<^sup>2)) 0)) / dsq"
  assumes len: "length n0 = 2" "length n1 = 2"
    and unit: "dot n0 n0 = 1" "dot n1 n1 = 1"
    and cross: "n0 ! 0 * n1 ! 1 - n0 ! 1 * n1 ! 0 \<noteq> 0"
    and pos: "0 < d0" "0 < d1" "0 < a0" "0 < a1"
  shows "\<exists>e. twoNeighbourValue m v x i s0 s1 = Inr (dis, e)"
proof -
  have u0: "(n0 ! 0)\<^sup>2 + (n0 ! 1)\<^sup>2 = 1" and u1: "(n1 ! 0)\<^sup>2 + (n1 ! 1)\<^sup>2 = 1"
    using unit len by (simp_all add: dot_length2 power2_eq_square)
  have dp: "dotProd = d0 * d1 * (n0 ! 0 * n1 ! 0 + n0 ! 1 * n1 ! 1)"
    using len by (simp add: dotProd_def dot_length2)
  have q: "0 < dsq"
    unfolding dsq_def dp using dsq_pos [OF pos(1,2) u0 u1 cross] .
  have cp: "crossProd \<noteq> 0" using cross pos by (simp add: crossProd_def)
  define phi where "phi = (if v ! i > 0 then max dis 0 else min dis 0)"
  have w: "a0 * \<bar>v0 - phi\<bar> / d0 + a1 * \<bar>v1 - phi\<bar> / d1 \<noteq> 0"
    by (rule weights_nonzero [OF pos(1,2) pos(3,4) q [unfolded dsq_def] cp
          dis_def [unfolded dsq_def, THEN meta_eq_to_obj_eq] phi_def
          sign_def [THEN meta_eq_to_obj_eq]])
  have eq: "twoNeighbourValue m v x i s0 s1 =
      (if length n0 < 2 \<or> length n1 < 2 then Inl IndexError
       else if dsq = 0 then Inl ZeroDivisionError
       else if d0 = 0 \<or> d1 = 0 then Inl ZeroDivisionError
       else if a0 * \<bar>v0 - phi\<bar> / d0 + a1 * \<bar>v1 - phi\<bar> / d1 = 0 then Inl ZeroDivisionError
       else Inr (dis, (x ! (adjIDs ! s0) * (a0 * \<bar>v0 - phi\<bar> / d0)
                       + x ! (adjIDs ! s1) * (a1 * \<bar>v1 - phi\<bar> / d1))
                      / (a0 * \<bar>v0 - phi\<bar> / d0 + a1 * \<bar>v1 - phi\<bar> / d1)))"
    unfolding twoNeighbourValue_def Let_def phi_def dis_def dsq_def dotProd_def crossProd_def
      sign_def v0_def v1_def a0_def a1_def n0_def n1_def d0_def d1_def adjIDs_def
    by (rule refl)
  show ?thesis
    unfolding eq using len q w pos by simp
qed


lemma selectNeighbours_keep:
  "1 < N \<Longrightarrow> 1 / 10 \<le> \<bar>trialCross m i (indices ! 0) (indices ! 1)\<bar> \<Longrightarrow>
     selectNeighbours m i N indices = (N, indices ! 1)"
  by (simp add: selectNeighbours_def Let_def)

lemma selectNeighbours_two_degenerate:
  "\<bar>trialCross m i (indices ! 0) (indices ! 1)\<bar> < 1 / 10 \<Longrightarrow>
     selectNeighbours m i 2 indices = (1, indices ! 1)"
  by (simp add: selectNeighbours_def Let_def)

lemma selectNeighbours_one: "selectNeighbours m i (Suc 0) indices = (Suc 0, indices ! 1)"
  by (simp add: selectNeighbours_def Let_def)

lemma twoNeighbourValue_extension:
  fixes m :: mesh and v x :: "real list" and i s0 s1 :: nat
  defines "adjIDs \<equiv> cellToCellIDsFilled m ! i"
  defines "d0 \<equiv> filledDistances m ! i ! s0" and "d1 \<equiv> filledDistances m ! i ! s1"
  defines "a0 \<equiv> filledAreas m ! i ! s0" and "a1 \<equiv> filledAreas m ! i ! s1"
  defines "v0 \<equiv> v ! (adjIDs ! s0)" and "v1 \<equiv> v ! (adjIDs ! s1)"
  defines "e0 \<equiv> x ! (adjIDs ! s0)" and "e1 \<equiv> x ! (adjIDs ! s1)"
  assumes r: "twoNeighbourValue m v x i s0 s1 = Inr (dis, e)"
  defines "phi \<equiv> (if v ! i > 0 then max dis 0 else min dis 0)"
  shows "e = (e0 * (a0 * \<bar>v0 - phi\<bar> / d0) + e1 * (a1 * \<bar>v1 - phi\<bar> / d1))
             / (a0 * \<bar>v0 - phi\<bar> / d0 + a1 * \<bar>v1 - phi\<bar> / d1)"
proof -
  define n0 where "n0 = filledNormals m ! i ! s0"
  define n1 where "n1 = filledNormals m ! i ! s1"
  define sign where "sign = (if v ! i > 0 then 1 else - 1 :: real)"
  define dotProd where "dotProd = d0 * d1 * dot n0 n1"
  define crossProd where "crossProd = d0 * d1 * (n0 ! 0 * n1 ! 1 - n0 ! 1 * n1 ! 0)"
  define dsq where "dsq = d0\<^sup>2 + d1\<^sup>2 - 2 * dotProd"
  define dis' where "dis' = (- v0 * (dotProd - d1\<^sup>2) - v1 * (dotProd - d0\<^sup>2)
                    + sign * sqrt (max (crossProd\<^sup>2 * (dsq - (v0 - v1)\<^sup>2)) 0)) / dsq"
  define phi' where "phi' = (if v ! i > 0 then max dis' 0 else min dis' 0)"
  have eq: "twoNeighbourValue m v x i s0 s1 =
      (if length n0 < 2 \<or> length n1 < 2 then Inl IndexError
       else if dsq = 0 then Inl ZeroDivisionError
       else if d0 = 0 \<or> d1 = 0 then Inl ZeroDivisionError
       else if a0 * \<bar>v0 - phi'\<bar> / d0 + a1 * \<bar>v1 - phi'\<bar> / d1 = 0 then Inl ZeroDivisionError
       else Inr (dis', (e0 * (a0 * \<bar>v0 - phi'\<bar> / d0) + e1 * (a1 * \<bar>v1 - phi'\<bar> / d1))
                      / (a0 * \<bar>v0 - phi'\<bar> / d0 + a1 * \<bar>v1 - phi'\<bar> / d1)))"
    unfolding twoNeighbourValue_def Let_def phi'_def dis'_def dsq_def dotProd_def crossProd_def
      sign_def v0_def v1_def e0_def e1_def a0_def a1_def n0_def n1_def d0_def d1_def adjIDs_def
    by (rule refl)
  from r have "dis = dis'"
    and "e = (e0 * (a0 * \<bar>v0 - phi'\<bar> / d0) + e1 * (a1 * \<bar>v1 - phi'\<bar> / d1))
                      / (a0 * \<bar>v0 - phi'\<bar> / d0 + a1 * \<bar>v1 - phi'\<bar> / d1)"
    unfolding eq by (simp_all split: if_splits)
  then show ?thesis by (simp add: phi_def phi'_def)
qed

lemma twoNeighbourValue_zero_extension:
  assumes "twoNeighbourValue m v x i s0 s1 = Inr (dis, e)"
    and "x ! (cellToCellIDsFilled m ! i ! s0) = 0" and "x ! (cellToCellIDsFilled m ! i ! s1) = 0"
  shows "e = 0"
  using twoNeighbourValue_extension [OF assms(1)] assms(2,3) by simp

lemma twoNeighbourValue_returns_zero:
  assumes "length (filledNormals m ! i ! s0) = 2" "length (filledNormals m ! i ! s1) = 2"
    and "dot (filledNormals m ! i ! s0) (filledNormals m ! i ! s0) = 1"
    and "dot (filledNormals m ! i ! s1) (filledNormals m ! i ! s1) = 1"
    and "filledNormals m ! i ! s0 ! 0 * filledNormals m ! i ! s1 ! 1
         - filledNormals m ! i ! s0 ! 1 * filledNormals m ! i ! s1 ! 0 \<noteq> 0"
    and "0 < filledDistances m ! i ! s0" "0 < filledDistances m ! i ! s1"
    and "0 < filledAreas m ! i ! s0" "0 < filledAreas m ! i ! s1"
    and "x ! (cellToCellIDsFilled m ! i ! s0) = 0" and "x ! (cellToCellIDsFilled m ! i ! s1) = 0"
  shows "\<exists>d. twoNeighbourValue m v x i s0 s1 = Inr (d, 0)"
proof -
  from twoNeighbourValue_returns [OF assms(1-9)]
  obtain d e where t: "twoNeighbourValue m v x i s0 s1 = Inr (d, e)" by blast
  from twoNeighbourValue_zero_extension [OF t assms(10,11)] t show ?thesis by blast
qed

lemma numEvaluated_le:
  assumes "i < length (cellToCellIDs m)"
  shows "numEvaluated m flags i \<le> length (cellToCellIDs m ! i)"
proof -
  have "numEvaluated m flags i \<le> length (adjEvaluatedFlag m flags i)"
    unfolding numEvaluated_def by (rule length_filter_le)
  also have "\<dots> = length (cellToCellIDs m ! i)"
    using assms by (simp add: adjEvaluatedFlag_def cellToCellIDsFilled_def)
  finally show ?thesis .
qed

section \<open>Facts about the pass\<close>

text \<open>
  An invariant of the loop is a property that every turn keeps; an invariant of the relaxation
  is a property that every assignment of a trial value keeps. Both rules are used for the
  lengths of the arrays first.
\<close>

lemma march_invariant:
  assumes "march m w st = Inr st'" and "Q st"
    and "\<And>s i s'. Q s \<Longrightarrow> trialIDs s \<noteq> [] \<Longrightarrow> marchStep m s = Inr (i, s') \<Longrightarrow> Q s'"
  shows "Q st'"
  using assms
proof (induction m w st rule: march.induct)
  case (1 m w st)
  note step = "1.prems"(3)
  show ?case
  proof (cases "trialIDs st = []")
    case True
    with "1.prems"(1,2) show ?thesis by (simp add: march.simps)
  next
    case False
    with "1.prems"(1) obtain i s where s: "marchStep m st = Inr (i, s)"
      by (subst (asm) march.simps) (auto split: sum.splits)
    from step [OF "1.prems"(2) False s] have Q: "Q s" .
    show ?thesis
    proof (cases "w / 2 < \<bar>val s ! i\<bar>")
      case True
      with "1.prems"(1) False s have "st' = s" by (subst (asm) march.simps) simp
      with Q show ?thesis by simp
    next
      case b: False
      with "1.prems"(1) False s have "march m w s = Inr st'" by (subst (asm) march.simps) simp
      then show ?thesis
        by (rule "1.IH" [OF False s refl b _ Q]) (erule (2) step)
    qed
  qed
qed

lemma relax_invariant:
  assumes "relax m st adjs = Inr st'" and "Q st"
    and step: "\<And>s adjID d e. Q s \<Longrightarrow> adjID < length (evaluatedFlag s) \<Longrightarrow> \<not> evaluatedFlag s ! adjID
       \<Longrightarrow> calcTrialValue m (val s) adjID (evaluatedFlag s) (ext s) = Inr (d, e)
       \<Longrightarrow> adjID < length (ext s)
       \<Longrightarrow> Q (s\<lparr>val := (val s)[adjID := d], ext := (ext s)[adjID := e],
                   trialIDs := (if adjID \<in> set (trialIDs s) then trialIDs s
                                else trialIDs s @ [adjID]),
                   assigned := adjID # assigned s\<rparr>)"
  shows "Q st'"
  using assms(1,2)
proof (induction adjs arbitrary: st)
  case Nil
  then show ?case by simp
next
  case (Cons a adjs)
  show ?case
  proof (cases a)
    case None
    with Cons show ?thesis by simp
  next
    case (Some adjID)
    show ?thesis
    proof (cases "evaluatedFlag st ! adjID")
      case True
      with Cons Some show ?thesis by (simp split: if_splits)
    next
      case False
      with Cons.prems(1) Some obtain d e where
        l: "adjID < length (evaluatedFlag st)" "adjID < length (ext st)"
        and c: "calcTrialValue m (val st) adjID (evaluatedFlag st) (ext st) = Inr (d, e)"
        and r: "relax m (st\<lparr>val := (val st)[adjID := d], ext := (ext st)[adjID := e],
                   trialIDs := (if adjID \<in> set (trialIDs st) then trialIDs st
                                else trialIDs st @ [adjID]),
                   assigned := adjID # assigned st\<rparr>) adjs = Inr st'"
        by (auto split: if_splits sum.splits)
      from Cons.IH [OF r step [OF Cons.prems(2) l(1) False c l(2)]] show ?thesis .
    qed
  qed
qed

lemma relax_length:
  assumes "relax m st adjs = Inr st'"
  shows "length (val st') = length (val st) \<and> length (ext st') = length (ext st)"
  by (rule relax_invariant [OF assms, where Q = "\<lambda>s. length (val s) = length (val st) \<and> length (ext s) = length (ext st)"]) simp_all

lemma marchStep_relax:
  assumes "marchStep m st = Inr (i, st')"
  shows "i < length (evaluatedFlag st) \<and> i < length (cellToCellIDs m)
         \<and> list_all (\<lambda>j. j < length (val st)) (trialIDs st)
         \<and> i = trialIDs st ! argmin (map (\<lambda>j. \<bar>val st ! j\<bar>) (trialIDs st))
         \<and> relax m (st\<lparr>trialIDs := remove1 i (trialIDs st),
                         evaluatedFlag := (evaluatedFlag st)[i := True],
                         accepted := i # accepted st\<rparr>) (cellToCellIDs m ! i) = Inr st'"
  using assms by (auto simp: marchStep_def Let_def split: if_splits sum.splits)

lemma marchStep_member:
  assumes "trialIDs st \<noteq> []" and "marchStep m st = Inr (i, st')"
  shows "i \<in> set (trialIDs st) \<and> i < length (val st)"
proof -
  from marchStep_relax [OF assms(2)]
  have i: "i = trialIDs st ! argmin (map (\<lambda>j. \<bar>val st ! j\<bar>) (trialIDs st))"
    and all: "list_all (\<lambda>j. j < length (val st)) (trialIDs st)" by simp_all
  from argmin_less [of "map (\<lambda>j. \<bar>val st ! j\<bar>) (trialIDs st)"] assms(1)
  have "argmin (map (\<lambda>j. \<bar>val st ! j\<bar>) (trialIDs st)) < length (trialIDs st)" by simp
  with i have "i \<in> set (trialIDs st)" by simp
  with all show ?thesis by (simp add: list_all_iff)
qed

lemma marchStep_length:
  assumes "marchStep m st = Inr (i, st')"
  shows "length (val st') = length (val st) \<and> length (ext st') = length (ext st)"
proof -
  from marchStep_relax [OF assms]
  have "relax m (st\<lparr>trialIDs := remove1 i (trialIDs st),
                         evaluatedFlag := (evaluatedFlag st)[i := True],
                         accepted := i # accepted st\<rparr>) (cellToCellIDs m ! i) = Inr st'"
    by blast
  from relax_length [OF this] show ?thesis by simp
qed

lemma march_length:
  assumes "march m w st = Inr st'"
  shows "length (val st') = length (val st) \<and> length (ext st') = length (ext st)"
  by (rule march_invariant [OF assms,
        where Q = "\<lambda>s. length (val s) = length (val st) \<and> length (ext s) = length (ext st)"])
     (simp_all add: marchStep_length)

lemma spreadExtension_length:
  "spreadExtension m v p x ids = Inr x' \<Longrightarrow> length x' = length x"
proof (induction ids arbitrary: x)
  case Nil
  then show ?case by simp
next
  case (Cons i ids)
  from Cons.prems obtain d e where
    "spreadExtension m v p (x[i := e]) ids = Inr x'"
    by (auto split: sum.splits if_splits)
  from Cons.IH [OF this] show ?case by simp
qed

lemma seedTrial_length:
  "seedTrial m f (v, x) ids = Inr (v', x') \<Longrightarrow> length v' = length v \<and> length x' = length x"
proof (induction ids arbitrary: v x)
  case Nil
  then show ?case by simp
next
  case (Cons i ids)
  from Cons.prems obtain d e where
    "seedTrial m f (v[i := d], x[i := e]) ids = Inr (v', x')"
    by (auto split: sum.splits if_splits)
  from Cons.IH [OF this] show ?case by simp
qed

lemma propagate_length:
  assumes "propagate m w v x f = Inr st"
  shows "length (val st) = length v \<and> length (ext st) = length x"
proof -
  from assms obtain v' x' tr where s: "seedTrial m f (v, x) tr = Inr (v', x')"
    and m: "march m w \<lparr>val = v', ext = x', evaluatedFlag = f, trialIDs = tr,
                        accepted = [], assigned = []\<rparr> = Inr st"
    by (auto simp: propagate_def Let_def split: sum.splits)
  from seedTrial_length [OF s] march_length [OF m] show ?thesis by simp
qed

lemma plain_length: "plain xs = Inr ys \<Longrightarrow> length ys = length xs"
proof (induction xs arbitrary: ys)
  case Nil
  then show ?case by simp
next
  case (Cons a xs)
  then show ?case by (cases a) (auto split: sum.splits)
qed

lemma deleteIslandsPass_length [simp]: "length (deleteIslandsPass m v) = length v"
  by (simp add: deleteIslandsPass_def)

lemma interfaceFlag_length [simp]: "length (interfaceFlag m v) = length v"
  by (simp add: interfaceFlag_def)

lemma locate_length:
  assumes "locate m v d = Inr (v2, f)"
  shows "length v2 = length v \<and> length f = length v"
proof -
  define v1 where "v1 = (if d then deleteIslandsPass m v else v)"
  have l: "length v1 = length v" by (simp add: v1_def)
  from assms have p: "plain (map (signedDistance m v1) [0..<length v1]) = Inr v2"
    and f: "f = interfaceFlag m v1"
    by (auto simp: locate_def Let_def v1_def split: sum.splits)
  from plain_length [OF p] l f show ?thesis by simp
qed

lemma internal_calcDistanceFunction_result:
  assumes "internal_calcDistanceFunction dv xo w d = Inr (dv', x')"
  shows "\<exists>st :: marching. dv' = dv\<lparr>value' := val st\<rparr> \<and> x' = ext st
              \<and> length (ext st) = length (value' dv)"
proof -
  let ?n = "length (value' dv)"
  from assms have guard: "case xo of None \<Rightarrow> True | Some x \<Rightarrow> length x = ?n"
    by (auto simp: internal_calcDistanceFunction_def Let_def split: if_splits option.splits)
  from assms obtain value2 flags ext1 value3 w' st where
    loc: "locate (mesh dv) (value' dv) d = Inr (value2, flags)"
    and sp: "spreadExtension (mesh dv) value2 (map (\<lambda>i. value2 ! i > 0 \<and> flags ! i) [0..<?n])
               (case xo of None \<Rightarrow> replicate ?n 0 | Some x \<Rightarrow> x)
               (filter (\<lambda>i. value2 ! i < 0 \<and> flags ! i) [0..<?n]) = Inr ext1"
    and pr: "propagate (mesh dv) w' value3 ext1 flags = Inr st"
    and res: "dv' = dv\<lparr>value' := val st\<rparr>" "x' = ext st"
    by (auto simp: internal_calcDistanceFunction_def Let_def split: if_splits sum.splits prod.splits)
  from guard have "length (case xo of None \<Rightarrow> replicate ?n 0 | Some x \<Rightarrow> x) = ?n"
    by (simp split: option.splits)
  with spreadExtension_length [OF sp] have "length ext1 = ?n" by simp
  with propagate_length [OF pr] have "length (ext st) = ?n" by simp
  with res show ?thesis by blast
qed

section \<open>Evaluation on concrete inputs\<close>

text \<open>
  The definitions are unfolded by the simplifier on concrete meshes and fields. The lists
  below collect the definitions of the locator and of the trial value solver.
\<close>

lemmas locator_defs = locate_def signedDistance_def distancesRow_def adjInterfaceValues_def
  MAargsort_def argsort_def interfaceFlag_def masksum_def combine_def dot_def filledNormals_def
  filled_def Let_def

lemmas trial_defs = calcTrialValue_def trialShapeOK_def trialIndices_def numEvaluated_def
  adjEvaluatedFlag_def selectNeighbours_def trialCross_def twoNeighbourValue_def
  cellToCellIDsFilled_def filledDistances_def filledNormals_def filledAreas_def filled_def
  argsort_def Let_def

lemmas march_defs = propagate_def hasAdjInterface_def march.simps marchStep_def argmin_def

lemmas premise_defs = trialShapeOK_def trialIndices_def numEvaluated_def adjEvaluatedFlag_def
  trialCross_def cellToCellIDsFilled_def filledDistances_def filledNormals_def filledAreas_def
  filled_def argsort_def dot_def Let_def

subsection \<open>The 1-D mesh of eight cells\<close>

lemma Grid1D_8:
  "Grid1D (1 / 2) 8 =
     \<lparr>dim = 1,
      cellToCellIDs =
        [[None, Some 1], [Some 0, Some 2], [Some 1, Some 3], [Some 2, Some 4],
         [Some 3, Some 5], [Some 4, Some 6], [Some 5, Some 7], [Some 6, None]],
      cellToCellDistances =
        [[None, Some (1 / 2)], [Some (1 / 2), Some (1 / 2)], [Some (1 / 2), Some (1 / 2)],
         [Some (1 / 2), Some (1 / 2)], [Some (1 / 2), Some (1 / 2)],
         [Some (1 / 2), Some (1 / 2)], [Some (1 / 2), Some (1 / 2)], [Some (1 / 2), None]],
      cellNormals =
        [[Some [- 1], Some [1]], [Some [- 1], Some [1]], [Some [- 1], Some [1]],
         [Some [- 1], Some [1]], [Some [- 1], Some [1]], [Some [- 1], Some [1]],
         [Some [- 1], Some [1]], [Some [- 1], Some [1]]],
      cellAreas =
        [[Some 1, Some 1], [Some 1, Some 1], [Some 1, Some 1], [Some 1, Some 1],
         [Some 1, Some 1], [Some 1, Some 1], [Some 1, Some 1], [Some 1, Some 1]]\<rparr>"
  by (simp add: Grid1D_def upt_rec)

lemma shape_8: "passShapeOK (Grid1D (1 / 2) 8) [- 1, - 1, - 1, - 1, 1, 1, 1, 1]"
  by (simp add: passShapeOK_def Grid1D_8 upt_rec)

lemma signedDistance_8:
  "map (signedDistance (Grid1D (1 / 2) 8) [- 1, - 1, - 1, - 1, 1, 1, 1, 1])
     [0..<length [- 1, - 1, - 1, - 1, 1, 1, 1, 1 :: real]] =
   [Some (- 1), Some (- 1), Some (- 1), Some (- (1 / 4)), Some (1 / 4), Some 1, Some 1, Some 1]"
  by (simp add: locator_defs Grid1D_8 upt_rec)

lemma interfaceFlag_8:
  "interfaceFlag (Grid1D (1 / 2) 8) [- 1, - 1, - 1, - 1, 1, 1, 1, 1] =
     [False, False, False, True, True, False, False, False]"
  by (simp add: locator_defs Grid1D_8 upt_rec)

lemma locate_8:
  "locate (Grid1D (1 / 2) 8) [- 1, - 1, - 1, - 1, 1, 1, 1, 1] False =
     Inr ([- 1, - 1, - 1, - (1 / 4), 1 / 4, 1, 1, 1],
          [False, False, False, True, True, False, False, False])"
  unfolding locate_def Let_def if_False signedDistance_8 interfaceFlag_8 by simp

lemma positive_8:
  "map (\<lambda>i. [- 1, - 1, - 1, - (1 / 4), 1 / 4, 1, 1, 1 :: real] ! i > 0
           \<and> [False, False, False, True, True, False, False, False] ! i)
     [0..<length [- 1, - 1, - 1, - 1, 1, 1, 1, 1 :: real]] =
   [False, False, False, False, True, False, False, False]"
  by (simp add: upt_rec)

lemma negative_8:
  "filter (\<lambda>i. [- 1, - 1, - 1, - (1 / 4), 1 / 4, 1, 1, 1 :: real] ! i < 0
              \<and> [False, False, False, True, True, False, False, False] ! i)
     [0..<length [- 1, - 1, - 1, - 1, 1, 1, 1, 1 :: real]] = [3]"
  by (simp add: upt_rec)

lemma zeros_8:
  "replicate (length [- 1, - 1, - 1, - 1, 1, 1, 1, 1 :: real]) (0 :: real) =
     [0, 0, 0, 0, 0, 0, 0, 0]"
  by (simp add: eval_nat_numeral)

lemma spreadExtension_8:
  "spreadExtension (Grid1D (1 / 2) 8) [- 1, - 1, - 1, - (1 / 4), 1 / 4, 1, 1, 1]
     [False, False, False, False, True, False, False, False] [0, 0, 0, 0, 0, 0, 0, 0] [3] =
   Inr [0, 0, 0, 0, 0, 0, 0, 0]"
  by (simp add: trial_defs Grid1D_8 upt_rec)

lemma propagate_8:
  "propagate (Grid1D (1 / 2) 8) (10 ^ 10) [- 1, - 1, - 1, - (1 / 4), 1 / 4, 1, 1, 1]
     [0, 0, 0, 0, 0, 0, 0, 0] [False, False, False, True, True, False, False, False] =
   Inr \<lparr>val = [- (7 / 4), - (5 / 4), - (3 / 4), - (1 / 4), 1 / 4, 3 / 4, 5 / 4, 7 / 4],
        ext = [0, 0, 0, 0, 0, 0, 0, 0],
        evaluatedFlag = [True, True, True, True, True, True, True, True],
        trialIDs = [], accepted = [7, 0, 6, 1, 5, 2], assigned = [7, 0, 6, 1]\<rparr>"
  by (simp add: march_defs trial_defs Grid1D_8 upt_rec)

subsection \<open>Cells of the 2 by 2 mesh\<close>

lemma Grid2D_2_2: "Grid2D 1 1 2 2 =
  \<lparr>dim = 2,
   cellToCellIDs = [[None, Some 1, Some 2, None], [None, None, Some 3, Some 0],
                    [Some 0, Some 3, None, None], [Some 1, None, None, Some 2]],
   cellToCellDistances = [[None, Some 1, Some 1, None], [None, None, Some 1, Some 1],
                    [Some 1, Some 1, None, None], [Some 1, None, None, Some 1]],
   cellNormals = [[Some [0, - 1], Some [1, 0], Some [0, 1], Some [- 1, 0]],
                  [Some [0, - 1], Some [1, 0], Some [0, 1], Some [- 1, 0]],
                  [Some [0, - 1], Some [1, 0], Some [0, 1], Some [- 1, 0]],
                  [Some [0, - 1], Some [1, 0], Some [0, 1], Some [- 1, 0]]],
   cellAreas = [[Some 1, Some 1, Some 1, Some 1], [Some 1, Some 1, Some 1, Some 1],
                [Some 1, Some 1, Some 1, Some 1], [Some 1, Some 1, Some 1, Some 1]]\<rparr>"
  by (simp add: Grid2D_def upt_rec)

lemma clamp_shape:
  "trialShapeOK (Grid2D 1 1 2 2) [0, - 1, - 2, 1] [False, True, True, False] [0, 0, 3, 0] 3"
  by (simp add: premise_defs Grid2D_2_2 upt_rec)

lemma clamp_indices:
  "trialIndices (Grid2D 1 1 2 2) [0, - 1, - 2, 1] [False, True, True, False] 3 = [0, 3, 1, 2]"
  by (simp add: premise_defs Grid2D_2_2 upt_rec)

lemma clamp_select:
  "selectNeighbours (Grid2D 1 1 2 2) 3
     (numEvaluated (Grid2D 1 1 2 2) [False, True, True, False] 3) [0, 3, 1, 2] = (2, 3)"
  by (simp add: selectNeighbours_def premise_defs Grid2D_2_2 upt_rec)

lemma clamp_value:
  "calcTrialValue (Grid2D 1 1 2 2) [0, - 1, - 2, 1] 3 [False, True, True, False] [0, 0, 3, 0] =
     Inr (- 1, 2)"
  unfolding calcTrialValue_unfold [OF clamp_shape] Let_def clamp_indices clamp_select
  by (simp add: twoNeighbourValue_def premise_defs Grid2D_2_2 upt_rec)

lemma one_shape:
  "trialShapeOK (Grid2D 1 1 2 2) [- 1, 1 / 2, 1 / 2, 1] [False, True, False, False] [0, 6, 0, 0] 3"
  by (simp add: premise_defs Grid2D_2_2 upt_rec)

lemma one_indices:
  "trialIndices (Grid2D 1 1 2 2) [- 1, 1 / 2, 1 / 2, 1] [False, True, False, False] 3 = [0, 1, 2, 3]"
  by (simp add: premise_defs Grid2D_2_2 upt_rec)

lemma one_select:
  "selectNeighbours (Grid2D 1 1 2 2) 3
     (numEvaluated (Grid2D 1 1 2 2) [False, True, False, False] 3) [0, 1, 2, 3] = (1, 1)"
  by (simp add: selectNeighbours_def premise_defs Grid2D_2_2 upt_rec)

subsection \<open>The 1-D mesh of three cells\<close>

lemma Grid1D_3:
  "Grid1D 1 3 =
     \<lparr>dim = 1,
      cellToCellIDs = [[None, Some 1], [Some 0, Some 2], [Some 1, None]],
      cellToCellDistances = [[None, Some 1], [Some 1, Some 1], [Some 1, None]],
      cellNormals = [[Some [- 1], Some [1]], [Some [- 1], Some [1]], [Some [- 1], Some [1]]],
      cellAreas = [[Some 1, Some 1], [Some 1, Some 1], [Some 1, Some 1]]\<rparr>"
  by (simp add: Grid1D_def upt_rec)

subsection \<open>The cell with four neighbours in dimension 3\<close>

lemma mesh3D_shape: "trialShapeOK mesh3D [1, 0, 1 / 2, 1, 2] [False, True, True, True, False] [0, 0, 0, 0, 0] 0"
  by (simp add: premise_defs mesh3D_def upt_rec)

lemma mesh3D_indices:
  "trialIndices mesh3D [1, 0, 1 / 2, 1, 2] [False, True, True, True, False] 0 = [0, 1, 2, 3]"
  by (simp add: premise_defs mesh3D_def upt_rec)

lemma mesh3D_select:
  "selectNeighbours mesh3D 0 (numEvaluated mesh3D [False, True, True, True, False] 0) [0, 1, 2, 3]
     = (3, 3)"
  by (simp add: selectNeighbours_def premise_defs mesh3D_def upt_rec)

lemma mesh3D_value:
  "calcTrialValue mesh3D [1, 0, 1 / 2, 1, 2] 0 [False, True, True, True, False] [0, 0, 0, 0, 0] =
     Inr (4 / 5, 0)"
  unfolding calcTrialValue_unfold [OF mesh3D_shape] Let_def mesh3D_indices mesh3D_select
  by (simp add: twoNeighbourValue_def premise_defs mesh3D_def upt_rec)

subsection \<open>The 3 by 3 mesh with a plus-shaped positive region\<close>

lemma Grid2D_3_3: "Grid2D 1 2 3 3 =
  \<lparr>dim = 2,
   cellToCellIDs =
     [[None, Some 1, Some 3, None], [None, Some 2, Some 4, Some 0], [None, None, Some 5, Some 1],
      [Some 0, Some 4, Some 6, None], [Some 1, Some 5, Some 7, Some 3], [Some 2, None, Some 8, Some 4],
      [Some 3, Some 7, None, None], [Some 4, Some 8, None, Some 6], [Some 5, None, None, Some 7]],
   cellToCellDistances =
     [[None, Some 1, Some 2, None], [None, Some 1, Some 2, Some 1], [None, None, Some 2, Some 1],
      [Some 2, Some 1, Some 2, None], [Some 2, Some 1, Some 2, Some 1], [Some 2, None, Some 2, Some 1],
      [Some 2, Some 1, None, None], [Some 2, Some 1, None, Some 1], [Some 2, None, None, Some 1]],
   cellNormals =
     [[Some [0, - 1], Some [1, 0], Some [0, 1], Some [- 1, 0]],
      [Some [0, - 1], Some [1, 0], Some [0, 1], Some [- 1, 0]],
      [Some [0, - 1], Some [1, 0], Some [0, 1], Some [- 1, 0]],
      [Some [0, - 1], Some [1, 0], Some [0, 1], Some [- 1, 0]],
      [Some [0, - 1], Some [1, 0], Some [0, 1], Some [- 1, 0]],
      [Some [0, - 1], Some [1, 0], Some [0, 1], Some [- 1, 0]],
      [Some [0, - 1], Some [1, 0], Some [0, 1], Some [- 1, 0]],
      [Some [0, - 1], Some [1, 0], Some [0, 1], Some [- 1, 0]],
      [Some [0, - 1], Some [1, 0], Some [0, 1], Some [- 1, 0]]],
   cellAreas =
     [[Some 1, Some 2, Some 1, Some 2], [Some 1, Some 2, Some 1, Some 2],
      [Some 1, Some 2, Some 1, Some 2], [Some 1, Some 2, Some 1, Some 2],
      [Some 1, Some 2, Some 1, Some 2], [Some 1, Some 2, Some 1, Some 2],
      [Some 1, Some 2, Some 1, Some 2], [Some 1, Some 2, Some 1, Some 2],
      [Some 1, Some 2, Some 1, Some 2]]\<rparr>"
  by (simp add: Grid2D_def upt_rec)

lemma plus_signedDistance:
  "map (signedDistance (Grid2D 1 2 3 3) [- 1, 1, - 1, 1, 1, 1, - 1, 1, - 1])
     [0..<length [- 1, 1, - 1, 1, 1, 1, - 1, 1, - 1 :: real]] =
   [Some (- (1 / sqrt 5)), Some (1 / 2), Some (- (1 / sqrt 5)), Some 1, Some 1, Some 1,
    Some (- (1 / sqrt 5)), Some (1 / 2), Some (- (1 / sqrt 5))]"
  by (simp add: locator_defs Grid2D_3_3 upt_rec power2_eq_square real_sqrt_divide)

lemma plus_interfaceFlag:
  "interfaceFlag (Grid2D 1 2 3 3) [- 1, 1, - 1, 1, 1, 1, - 1, 1, - 1] =
     [True, True, True, True, False, True, True, True, True]"
  by (simp add: locator_defs Grid2D_3_3 upt_rec)

lemma plus_locate:
  "locate (Grid2D 1 2 3 3) [- 1, 1, - 1, 1, 1, 1, - 1, 1, - 1] False =
     Inr ([- (1 / sqrt 5), 1 / 2, - (1 / sqrt 5), 1, 1, 1, - (1 / sqrt 5), 1 / 2, - (1 / sqrt 5)],
          [True, True, True, True, False, True, True, True, True])"
  unfolding locate_def Let_def if_False plus_signedDistance plus_interfaceFlag by simp

lemma plus_shape: "passShapeOK (Grid2D 1 2 3 3) [- 1, 1, - 1, 1, 1, 1, - 1, 1, - 1]"
  by (simp add: passShapeOK_def Grid2D_3_3 upt_rec)

lemma plus_positive:
  "map (\<lambda>i. [- (1 / sqrt 5), 1 / 2, - (1 / sqrt 5), 1, 1, 1, - (1 / sqrt 5), 1 / 2, - (1 / sqrt 5)] ! i > 0
           \<and> [True, True, True, True, False, True, True, True, True] ! i)
     [0..<length [- 1, 1, - 1, 1, 1, 1, - 1, 1, - 1 :: real]] =
   [False, True, False, True, False, True, False, True, False]"
  by (simp add: upt_rec)

lemma plus_negative:
  "filter (\<lambda>i. [- (1 / sqrt 5), 1 / 2, - (1 / sqrt 5), 1, 1, 1, - (1 / sqrt 5), 1 / 2, - (1 / sqrt 5)] ! i < 0
           \<and> [True, True, True, True, False, True, True, True, True] ! i)
     [0..<length [- 1, 1, - 1, 1, 1, 1, - 1, 1, - 1 :: real]] = [0, 2, 6, 8]"
  by (simp add: upt_rec)

lemma plus_zeros:
  "replicate (length [- 1, 1, - 1, 1, 1, 1, - 1, 1, - 1 :: real]) (0 :: real) =
     [0, 0, 0, 0, 0, 0, 0, 0, 0]"
  by (simp add: eval_nat_numeral)

lemma plus_corner_0:
  "\<exists>d. calcTrialValue (Grid2D 1 2 3 3)
          [- (1 / sqrt 5), 1 / 2, - (1 / sqrt 5), 1, 1, 1, - (1 / sqrt 5), 1 / 2, - (1 / sqrt 5)] 0
          [False, True, False, True, False, True, False, True, False] [0, 0, 0, 0, 0, 0, 0, 0, 0] = Inr (d, 0)"
proof -
  let ?G = "Grid2D 1 2 3 3"
  let ?V = "[- (1 / sqrt 5), 1 / 2, - (1 / sqrt 5), 1, 1, 1, - (1 / sqrt 5), 1 / 2, - (1 / sqrt 5)]"
  let ?P = "[False, True, False, True, False, True, False, True, False]"
  let ?Z = "[0, 0, 0, 0, 0, 0, 0, 0, 0] :: real list"
  have shape: "trialShapeOK ?G ?V ?P ?Z 0"
    by (simp add: premise_defs Grid2D_3_3 upt_rec)
  have idx: "trialIndices ?G ?V ?P 0 = [1, 2, 0, 3]"
    by (simp add: premise_defs Grid2D_3_3 upt_rec)
  have sel: "selectNeighbours ?G 0 (numEvaluated ?G ?P 0) [1, 2, 0, 3] = (2, 2)"
    by (simp add: selectNeighbours_def premise_defs Grid2D_3_3 upt_rec)
  have "calcTrialValue ?G ?V 0 ?P ?Z = twoNeighbourValue ?G ?V ?Z 0 1 2"
    unfolding calcTrialValue_unfold [OF shape] Let_def idx sel by simp
  moreover have "\<exists>d. twoNeighbourValue ?G ?V ?Z 0 1 2 = Inr (d, 0)"
    by (rule twoNeighbourValue_returns_zero) (simp_all add: premise_defs Grid2D_3_3 upt_rec)
  ultimately show ?thesis by simp
qed

lemma plus_corner_2:
  "\<exists>d. calcTrialValue (Grid2D 1 2 3 3)
          [- (1 / sqrt 5), 1 / 2, - (1 / sqrt 5), 1, 1, 1, - (1 / sqrt 5), 1 / 2, - (1 / sqrt 5)] 2
          [False, True, False, True, False, True, False, True, False] [0, 0, 0, 0, 0, 0, 0, 0, 0] = Inr (d, 0)"
proof -
  let ?G = "Grid2D 1 2 3 3"
  let ?V = "[- (1 / sqrt 5), 1 / 2, - (1 / sqrt 5), 1, 1, 1, - (1 / sqrt 5), 1 / 2, - (1 / sqrt 5)]"
  let ?P = "[False, True, False, True, False, True, False, True, False]"
  let ?Z = "[0, 0, 0, 0, 0, 0, 0, 0, 0] :: real list"
  have shape: "trialShapeOK ?G ?V ?P ?Z 2"
    by (simp add: premise_defs Grid2D_3_3 upt_rec)
  have idx: "trialIndices ?G ?V ?P 2 = [3, 2, 0, 1]"
    by (simp add: premise_defs Grid2D_3_3 upt_rec)
  have sel: "selectNeighbours ?G 2 (numEvaluated ?G ?P 2) [3, 2, 0, 1] = (2, 2)"
    by (simp add: selectNeighbours_def premise_defs Grid2D_3_3 upt_rec)
  have "calcTrialValue ?G ?V 2 ?P ?Z = twoNeighbourValue ?G ?V ?Z 2 3 2"
    unfolding calcTrialValue_unfold [OF shape] Let_def idx sel by simp
  moreover have "\<exists>d. twoNeighbourValue ?G ?V ?Z 2 3 2 = Inr (d, 0)"
    by (rule twoNeighbourValue_returns_zero) (simp_all add: premise_defs Grid2D_3_3 upt_rec)
  ultimately show ?thesis by simp
qed

lemma plus_corner_6:
  "\<exists>d. calcTrialValue (Grid2D 1 2 3 3)
          [- (1 / sqrt 5), 1 / 2, - (1 / sqrt 5), 1, 1, 1, - (1 / sqrt 5), 1 / 2, - (1 / sqrt 5)] 6
          [False, True, False, True, False, True, False, True, False] [0, 0, 0, 0, 0, 0, 0, 0, 0] = Inr (d, 0)"
proof -
  let ?G = "Grid2D 1 2 3 3"
  let ?V = "[- (1 / sqrt 5), 1 / 2, - (1 / sqrt 5), 1, 1, 1, - (1 / sqrt 5), 1 / 2, - (1 / sqrt 5)]"
  let ?P = "[False, True, False, True, False, True, False, True, False]"
  let ?Z = "[0, 0, 0, 0, 0, 0, 0, 0, 0] :: real list"
  have shape: "trialShapeOK ?G ?V ?P ?Z 6"
    by (simp add: premise_defs Grid2D_3_3 upt_rec)
  have idx: "trialIndices ?G ?V ?P 6 = [1, 0, 2, 3]"
    by (simp add: premise_defs Grid2D_3_3 upt_rec)
  have sel: "selectNeighbours ?G 6 (numEvaluated ?G ?P 6) [1, 0, 2, 3] = (2, 0)"
    by (simp add: selectNeighbours_def premise_defs Grid2D_3_3 upt_rec)
  have "calcTrialValue ?G ?V 6 ?P ?Z = twoNeighbourValue ?G ?V ?Z 6 1 0"
    unfolding calcTrialValue_unfold [OF shape] Let_def idx sel by simp
  moreover have "\<exists>d. twoNeighbourValue ?G ?V ?Z 6 1 0 = Inr (d, 0)"
    by (rule twoNeighbourValue_returns_zero) (simp_all add: premise_defs Grid2D_3_3 upt_rec)
  ultimately show ?thesis by simp
qed

lemma plus_corner_8:
  "\<exists>d. calcTrialValue (Grid2D 1 2 3 3)
          [- (1 / sqrt 5), 1 / 2, - (1 / sqrt 5), 1, 1, 1, - (1 / sqrt 5), 1 / 2, - (1 / sqrt 5)] 8
          [False, True, False, True, False, True, False, True, False] [0, 0, 0, 0, 0, 0, 0, 0, 0] = Inr (d, 0)"
proof -
  let ?G = "Grid2D 1 2 3 3"
  let ?V = "[- (1 / sqrt 5), 1 / 2, - (1 / sqrt 5), 1, 1, 1, - (1 / sqrt 5), 1 / 2, - (1 / sqrt 5)]"
  let ?P = "[False, True, False, True, False, True, False, True, False]"
  let ?Z = "[0, 0, 0, 0, 0, 0, 0, 0, 0] :: real list"
  have shape: "trialShapeOK ?G ?V ?P ?Z 8"
    by (simp add: premise_defs Grid2D_3_3 upt_rec)
  have idx: "trialIndices ?G ?V ?P 8 = [3, 0, 1, 2]"
    by (simp add: premise_defs Grid2D_3_3 upt_rec)
  have sel: "selectNeighbours ?G 8 (numEvaluated ?G ?P 8) [3, 0, 1, 2] = (2, 0)"
    by (simp add: selectNeighbours_def premise_defs Grid2D_3_3 upt_rec)
  have "calcTrialValue ?G ?V 8 ?P ?Z = twoNeighbourValue ?G ?V ?Z 8 3 0"
    unfolding calcTrialValue_unfold [OF shape] Let_def idx sel by simp
  moreover have "\<exists>d. twoNeighbourValue ?G ?V ?Z 8 3 0 = Inr (d, 0)"
    by (rule twoNeighbourValue_returns_zero) (simp_all add: premise_defs Grid2D_3_3 upt_rec)
  ultimately show ?thesis by simp
qed

lemma plus_spreadExtension:
  "spreadExtension (Grid2D 1 2 3 3)
     [- (1 / sqrt 5), 1 / 2, - (1 / sqrt 5), 1, 1, 1, - (1 / sqrt 5), 1 / 2, - (1 / sqrt 5)]
     [False, True, False, True, False, True, False, True, False] [0, 0, 0, 0, 0, 0, 0, 0, 0] [0, 2, 6, 8] =
   Inr [0, 0, 0, 0, 0, 0, 0, 0, 0]"
  using plus_corner_0 plus_corner_2 plus_corner_6 plus_corner_8 by auto

lemma plus_centre:
  "calcTrialValue (Grid2D 1 2 3 3)
     [- (1 / sqrt 5), 1 / 2, - (1 / sqrt 5), 1, 1, 1, - (1 / sqrt 5), 1 / 2, - (1 / sqrt 5)] 4
     [True, True, True, True, False, True, True, True, True] [0, 0, 0, 0, 0, 0, 0, 0, 0] = Inl ZeroDivisionError"
  by (simp add: trial_defs dot_def Grid2D_3_3 upt_rec)

lemma plus_propagate:
  "propagate (Grid2D 1 2 3 3) w
     [- (1 / sqrt 5), 1 / 2, - (1 / sqrt 5), 1, 1, 1, - (1 / sqrt 5), 1 / 2, - (1 / sqrt 5)]
     [0, 0, 0, 0, 0, 0, 0, 0, 0] [True, True, True, True, False, True, True, True, True] = Inl ZeroDivisionError"
proof -
  have "filter (\<lambda>i. \<not> [True, True, True, True, False, True, True, True, True] ! i
            \<and> hasAdjInterface (Grid2D 1 2 3 3) [True, True, True, True, False, True, True, True, True] i)
          [0..<length [True, True, True, True, False, True, True, True, True]] = [4]"
    by (simp add: hasAdjInterface_def Grid2D_3_3 upt_rec)
  then show ?thesis
    unfolding propagate_def Let_def by (simp add: plus_centre)
qed

subsection \<open>An extension on the 1-D mesh of three cells\<close>

lemma ext3_shape: "passShapeOK (Grid1D 1 3) [- 1, 1, 3]"
  by (simp add: passShapeOK_def Grid1D_3 upt_rec)

lemma ext3_signedDistance:
  "map (signedDistance (Grid1D 1 3) [- 1, 1, 3]) [0..<length [- 1, 1, 3 :: real]] =
     [Some (- (1 / 2)), Some (1 / 2), Some 3]"
  by (simp add: locator_defs Grid1D_3 upt_rec)

lemma ext3_interfaceFlag: "interfaceFlag (Grid1D 1 3) [- 1, 1, 3] = [True, True, False]"
  by (simp add: locator_defs Grid1D_3 upt_rec)

lemma ext3_locate:
  "locate (Grid1D 1 3) [- 1, 1, 3] False = Inr ([- (1 / 2), 1 / 2, 3], [True, True, False])"
  unfolding locate_def Let_def if_False ext3_signedDistance ext3_interfaceFlag by simp

lemma ext3_positive:
  "map (\<lambda>i. [- (1 / 2), 1 / 2, 3 :: real] ! i > 0 \<and> [True, True, False] ! i)
     [0..<length [- 1, 1, 3 :: real]] = [False, True, False]"
  by (simp add: upt_rec)

lemma ext3_negative:
  "filter (\<lambda>i. [- (1 / 2), 1 / 2, 3 :: real] ! i < 0 \<and> [True, True, False] ! i)
     [0..<length [- 1, 1, 3 :: real]] = [0]"
  by (simp add: upt_rec)

lemma ext3_spreadExtension:
  "spreadExtension (Grid1D 1 3) [- (1 / 2), 1 / 2, 3] [False, True, False] [1, 2, 0] [0] =
     Inr [2, 2, 0]"
  by (simp add: trial_defs Grid1D_3 upt_rec)

lemma ext3_propagate:
  "propagate (Grid1D 1 3) (10 ^ 10) [- 1, 1, 3] [2, 2, 0] [True, True, False] =
     Inr \<lparr>val = [- 1, 1, 2], ext = [2, 2, 2], evaluatedFlag = [True, True, True],
          trialIDs = [], accepted = [2], assigned = []\<rparr>"
  by (simp add: march_defs trial_defs Grid1D_3 upt_rec)

lemma ext3_guard:
  "(length [1, 2, 0 :: real] \<noteq> length [- 1, 1, 3 :: real]
    \<or> length [- 1, 1, 3 :: real] \<noteq> length [- 1, 1, 3 :: real]) = False"
  by simp

lemma ext3_extendVariable:
  "extendVariable
     \<lparr>mesh = Grid1D 1 3, value' = [- 1, 1, 3], tmpValue = [], narrowBandWidth = 10 ^ 10\<rparr>
     [1, 2, 0] False =
   Inr (\<lparr>mesh = Grid1D 1 3, value' = [- 1, 1, 3], tmpValue = [- 1, 1, 3],
         narrowBandWidth = 10 ^ 10\<rparr>, [2, 2, 2])"
  unfolding extendVariable_def internal_calcDistanceFunction_def Let_def
  apply (simp only: distanceVariable.simps ext3_shape ext3_locate ext3_positive ext3_negative
      ext3_spreadExtension ext3_propagate option.case sum.case prod.case
      not_True_eq_False simp_thms if_False marching.simps ext3_guard)
  apply simp
  done

section \<open>The claims\<close>

text \<open>
  C1. On the uniform 1-D mesh of eight cells with spacing \<open>0.5\<close>, the field
  \<open>(-1, -1, -1, -1, 1, 1, 1, 1)\<close>, the default band width \<open>1e10\<close> and no deletion of islands,
  \<^verbatim>\<open>calcDistanceFunction\<close> returns, and the field it leaves is exactly
  \<open>(-1.75, -1.25, -0.75, -0.25, 0.25, 0.75, 1.25, 1.75)\<close>; nothing else of the object changes.
\<close>

theorem C1_distance_1D_eight_cells:
  "calcDistanceFunction
     \<lparr>mesh = Grid1D (1 / 2) 8, value' = [- 1, - 1, - 1, - 1, 1, 1, 1, 1], tmpValue = t,
      narrowBandWidth = 10 ^ 10\<rparr> None False =
   Inr \<lparr>mesh = Grid1D (1 / 2) 8,
        value' = [- (7 / 4), - (5 / 4), - (3 / 4), - (1 / 4), 1 / 4, 3 / 4, 5 / 4, 7 / 4],
        tmpValue = t, narrowBandWidth = 10 ^ 10\<rparr>"
  unfolding calcDistanceFunction_def internal_calcDistanceFunction_def Let_def
  by (simp only: distanceVariable.simps shape_8 locate_8 positive_8 negative_8 zeros_8
      spreadExtension_8 propagate_8 option.case sum.case prod.case not_True_eq_False
      simp_thms if_False marching.simps)

text \<open>
  C2. Let \<open>indices\<close> order the neighbour slots of the cell by the magnitude of their values
  (slots that are not evaluated last), and let \<open>d0, v0, e0, n0, a0\<close> and \<open>d1, v1, n1, a1\<close>
  be the distance, value, extension value, normal and face area on the first and on the second
  slot. With at least two evaluated neighbours on a mesh of dimension 2 and a cross product of
  \<open>n0\<close> and \<open>n1\<close> of magnitude at least \<open>0.1\<close>, on slots of positive distance and area
  with unit normals, the solver returns \<open>dis = (top + sign * sqrt (max disc 0)) / dsq\<close>, where
  \<open>dsq = d0\<^sup>2 + d1\<^sup>2 - 2 * d0 * d1 * (n0 \<cdot> n1)\<close> (the scalar product of unit normals is the
  cosine of their angle), \<open>top = - v0 * (dotProd - d1\<^sup>2) - v1 * (dotProd - d0\<^sup>2)\<close> and
  \<open>disc = crossProd\<^sup>2 * (dsq - (v0 - v1)\<^sup>2)\<close>. With exactly two evaluated neighbours of
  degenerate normals, and with exactly one evaluated neighbour, it returns the one-neighbour
  estimate \<open>v0 + sign * d0\<close> (and the extension value \<open>e0\<close>).
\<close>

theorem C2_trial_value:
  fixes m :: mesh and v x :: "real list" and flags :: "bool list" and i :: nat
  defines "indices \<equiv> trialIndices m v flags i"
  defines "adjIDs \<equiv> cellToCellIDsFilled m ! i"
  defines "N \<equiv> numEvaluated m flags i"
  defines "sign \<equiv> (if v ! i > 0 then 1 else - 1 :: real)"
  defines "d0 \<equiv> filledDistances m ! i ! (indices ! 0)"
    and "d1 \<equiv> filledDistances m ! i ! (indices ! 1)"
  defines "n0 \<equiv> filledNormals m ! i ! (indices ! 0)"
    and "n1 \<equiv> filledNormals m ! i ! (indices ! 1)"
  defines "a0 \<equiv> filledAreas m ! i ! (indices ! 0)"
    and "a1 \<equiv> filledAreas m ! i ! (indices ! 1)"
  defines "v0 \<equiv> v ! (adjIDs ! (indices ! 0))" and "v1 \<equiv> v ! (adjIDs ! (indices ! 1))"
  defines "e0 \<equiv> x ! (adjIDs ! (indices ! 0))"
  defines "cross \<equiv> n0 ! 0 * n1 ! 1 - n0 ! 1 * n1 ! 0"
  defines "crossProd \<equiv> d0 * d1 * cross"
  defines "dotProd \<equiv> d0 * d1 * dot n0 n1"
  defines "dsq \<equiv> d0\<^sup>2 + d1\<^sup>2 - 2 * d0 * d1 * dot n0 n1"
  defines "top' \<equiv> - v0 * (dotProd - d1\<^sup>2) - v1 * (dotProd - d0\<^sup>2)"
  defines "disc \<equiv> crossProd\<^sup>2 * (dsq - (v0 - v1)\<^sup>2)"
  assumes shape: "trialShapeOK m v flags x i"
  shows "(2 \<le> N \<and> dim m = 2 \<and> 1 / 10 \<le> \<bar>cross\<bar> \<and> dot n0 n0 = 1 \<and> dot n1 n1 = 1
            \<and> 0 < d0 \<and> 0 < d1 \<and> 0 < a0 \<and> 0 < a1
          \<longrightarrow> (\<exists>e. calcTrialValue m v i flags x = Inr ((top' + sign * sqrt (max disc 0)) / dsq, e)))
       \<and> (N = 2 \<and> \<bar>trialCross m i (indices ! 0) (indices ! 1)\<bar> < 1 / 10
          \<longrightarrow> calcTrialValue m v i flags x = Inr (v0 + sign * d0, e0))
       \<and> (N = 1 \<longrightarrow> calcTrialValue m v i flags x = Inr (v0 + sign * d0, e0))"
proof (intro conjI impI)
  assume h: "2 \<le> N \<and> dim m = 2 \<and> 1 / 10 \<le> \<bar>cross\<bar> \<and> dot n0 n0 = 1 \<and> dot n1 n1 = 1
            \<and> 0 < d0 \<and> 0 < d1 \<and> 0 < a0 \<and> 0 < a1"
  from shape have M: "0 < length (cellToCellIDs m ! i)" "1 < length (cellToCellIDs m ! i)"
    by (auto simp: trialShapeOK_def)
  have l0: "length n0 = 2"
    unfolding n0_def indices_def
    using filledNormals_length [OF shape trialIndices_less [OF shape M(1)]] h by simp
  have l1: "length n1 = 2"
    unfolding n1_def indices_def
    using filledNormals_length [OF shape trialIndices_less [OF shape M(2)]] h by simp
  have tc: "trialCross m i (indices ! 0) (indices ! 1) = cross"
    using h by (simp add: trialCross_def cross_def n0_def n1_def Let_def)
  have sel: "selectNeighbours m i N indices = (N, indices ! 1)"
    using h tc by (intro selectNeighbours_keep) simp_all
  have c0: "n0 ! 0 * n1 ! 1 - n0 ! 1 * n1 ! 0 \<noteq> 0"
    using h by (auto simp: cross_def)
  from twoNeighbourValue_returns [of m i "indices ! 0" "indices ! 1" v x,
      folded n0_def n1_def d0_def d1_def a0_def a1_def, OF l0 l1 _ _ c0]
  h obtain e where
    "twoNeighbourValue m v x i (indices ! 0) (indices ! 1) = Inr ((top' + sign * sqrt (max disc 0)) / dsq, e)"
    unfolding top'_def disc_def dsq_def dotProd_def crossProd_def cross_def v0_def v1_def
       adjIDs_def sign_def
    by (auto simp: mult.assoc)
  moreover have "calcTrialValue m v i flags x = twoNeighbourValue m v x i (indices ! 0) (indices ! 1)"
    using h sel by (simp add: calcTrialValue_unfold [OF shape] Let_def indices_def [symmetric] N_def [symmetric])
  ultimately show "\<exists>e. calcTrialValue m v i flags x = Inr ((top' + sign * sqrt (max disc 0)) / dsq, e)"
    by auto
next
  assume h: "N = 2 \<and> \<bar>trialCross m i (indices ! 0) (indices ! 1)\<bar> < 1 / 10"
  then have "selectNeighbours m i N indices = (1, indices ! 1)"
    using selectNeighbours_two_degenerate by simp
  then show "calcTrialValue m v i flags x = Inr (v0 + sign * d0, e0)"
    by (simp add: calcTrialValue_unfold [OF shape] Let_def indices_def [symmetric] N_def [symmetric]
        v0_def d0_def e0_def sign_def adjIDs_def)
next
  assume h: "N = 1"
  then have "selectNeighbours m i N indices = (1, indices ! 1)"
    using selectNeighbours_one by simp
  then show "calcTrialValue m v i flags x = Inr (v0 + sign * d0, e0)"
    by (simp add: calcTrialValue_unfold [OF shape] Let_def indices_def [symmetric] N_def [symmetric]
        v0_def d0_def e0_def sign_def adjIDs_def)
qed


text \<open>
  The three cases of C2 on concrete cells: the upper right cell of a 2 by 2 mesh with its two
  neighbours evaluated, the middle cell of a row of three with both neighbours evaluated
  (opposite normals), and the upper right cell again with one neighbour evaluated.
\<close>

theorem C2_trial_value_witness:
  "(\<exists>e. calcTrialValue (Grid2D 1 1 2 2) [- 1, 1 / 2, 1 / 2, 1] 3 [True, True, True, False]
          [0, 0, 0, 0] = Inr ((1 + sqrt 2) / 2, e))
   \<and> calcTrialValue (Grid2D 1 1 3 1) [1 / 2, 1, 3 / 4] 1 [True, False, True] [5, 0, 7] =
       Inr (3 / 2, 5)
   \<and> calcTrialValue (Grid2D 1 1 2 2) [- 1, 1 / 2, 1 / 2, 1] 3 [False, True, False, False]
          [0, 6, 0, 0] = Inr (3 / 2, 6)"
proof (intro conjI)
  have s: "trialShapeOK (Grid2D 1 1 2 2) [- 1, 1 / 2, 1 / 2, 1] [True, True, True, False] [0, 0, 0, 0] 3"
    by (simp add: trial_defs Grid2D_def upt_rec)
  from C2_trial_value [OF s]
  show "\<exists>e. calcTrialValue (Grid2D 1 1 2 2) [- 1, 1 / 2, 1 / 2, 1] 3 [True, True, True, False]
          [0, 0, 0, 0] = Inr ((1 + sqrt 2) / 2, e)"
    by (simp add: premise_defs Grid2D_def upt_rec)
next
  have s: "trialShapeOK (Grid2D 1 1 3 1) [1 / 2, 1, 3 / 4] [True, False, True] [5, 0, 7] 1"
    by (simp add: trial_defs Grid2D_def upt_rec)
  from C2_trial_value [OF s]
  show "calcTrialValue (Grid2D 1 1 3 1) [1 / 2, 1, 3 / 4] 1 [True, False, True] [5, 0, 7] =
       Inr (3 / 2, 5)"
    by (simp add: premise_defs Grid2D_def upt_rec)
next
  have s: "trialShapeOK (Grid2D 1 1 2 2) [- 1, 1 / 2, 1 / 2, 1] [False, True, False, False] [0, 6, 0, 0] 3"
    by (simp add: trial_defs Grid2D_def upt_rec)
  from C2_trial_value [OF s]
  show "calcTrialValue (Grid2D 1 1 2 2) [- 1, 1 / 2, 1 / 2, 1] 3 [False, True, False, False]
          [0, 6, 0, 0] = Inr (3 / 2, 6)"
    by (simp add: premise_defs Grid2D_def upt_rec)
qed

text \<open>
  C9 (as the code has it). Whenever the solver uses two neighbours and returns, the extension
  estimate is \<open>(e0 * w0 + e1 * w1) / (w0 + w1)\<close> with the weights
  \<open>w\<^sub>i = area\<^sub>i * \<bar>v\<^sub>i - phi\<bar> / d\<^sub>i\<close>, where \<open>phi\<close> is the two-neighbour distance \<open>dis\<close>
  clamped to the side of the cell: \<open>max dis 0\<close> for a cell of positive value, \<open>min dis 0\<close>
  otherwise. When only one neighbour contributes, the estimate is \<open>e0\<close>.
\<close>

theorem C9_extension_blend:
  fixes m :: mesh and v x :: "real list" and flags :: "bool list" and i :: nat
  defines "indices \<equiv> trialIndices m v flags i"
  defines "N \<equiv> fst (selectNeighbours m i (numEvaluated m flags i) indices)"
  defines "index0 \<equiv> indices ! 0"
  defines "index1 \<equiv> snd (selectNeighbours m i (numEvaluated m flags i) indices)"
  defines "e0 \<equiv> x ! (cellToCellIDsFilled m ! i ! index0)"
  assumes shape: "trialShapeOK m v flags x i"
  shows "(2 \<le> N \<longrightarrow>
           (\<forall>dis e. calcTrialValue m v i flags x = Inr (dis, e) \<longrightarrow>
              e = weightedExtension m v x i index0 index1
                    (if v ! i > 0 then max dis 0 else min dis 0)))
       \<and> (N = 1 \<longrightarrow> (\<exists>dis. calcTrialValue m v i flags x = Inr (dis, e0)))"
proof (intro conjI impI allI)
  fix dis e
  assume N: "2 \<le> N" and r: "calcTrialValue m v i flags x = Inr (dis, e)"
  from N have "calcTrialValue m v i flags x = twoNeighbourValue m v x i index0 index1"
    by (simp add: calcTrialValue_unfold [OF shape] Let_def N_def index0_def index1_def indices_def)
  with r have t: "twoNeighbourValue m v x i index0 index1 = Inr (dis, e)" by simp
  show "e = weightedExtension m v x i index0 index1 (if v ! i > 0 then max dis 0 else min dis 0)"
    unfolding weightedExtension_def Let_def
    by (rule twoNeighbourValue_extension [OF t])
next
  assume "N = 1"
  then show "\<exists>dis. calcTrialValue m v i flags x = Inr (dis, e0)"
    by (simp add: calcTrialValue_unfold [OF shape] Let_def N_def index0_def indices_def e0_def)
qed

text \<open>
  C9 as stated takes the weights at the unclamped \<open>dis\<close>. On the upper right cell of the
  2 by 2 mesh, of value \<open>1\<close>, with the evaluated neighbours \<open>-1\<close> below and \<open>-2\<close> to the left
  carrying the extension values \<open>0\<close> and \<open>3\<close>, the solver uses both (slots \<open>0\<close> and \<open>3\<close>),
  returns \<open>dis = -1\<close> and the extension value \<open>2\<close>; the weights at \<open>dis = -1\<close> give \<open>3\<close>.
\<close>

theorem C9_unclamped_counterexample:
  "trialIndices (Grid2D 1 1 2 2) [0, - 1, - 2, 1] [False, True, True, False] 3 ! 0 = 0
   \<and> selectNeighbours (Grid2D 1 1 2 2) 3
         (numEvaluated (Grid2D 1 1 2 2) [False, True, True, False] 3)
         (trialIndices (Grid2D 1 1 2 2) [0, - 1, - 2, 1] [False, True, True, False] 3) = (2, 3)
   \<and> calcTrialValue (Grid2D 1 1 2 2) [0, - 1, - 2, 1] 3 [False, True, True, False] [0, 0, 3, 0] =
       Inr (- 1, 2)
   \<and> weightedExtension (Grid2D 1 1 2 2) [0, - 1, - 2, 1] [0, 0, 3, 0] 3 0 3 (- 1) = 3"
  unfolding clamp_indices clamp_select clamp_value
  by (simp add: weightedExtension_def premise_defs Grid2D_2_2 upt_rec)

text \<open>The same cell for the two-neighbour case of C9, and a cell with one evaluated neighbour.\<close>

theorem C9_extension_blend_witness:
  "2 \<le> fst (selectNeighbours (Grid2D 1 1 2 2) 3
         (numEvaluated (Grid2D 1 1 2 2) [False, True, True, False] 3)
         (trialIndices (Grid2D 1 1 2 2) [0, - 1, - 2, 1] [False, True, True, False] 3))
   \<and> calcTrialValue (Grid2D 1 1 2 2) [0, - 1, - 2, 1] 3 [False, True, True, False] [0, 0, 3, 0] =
       Inr (- 1, 2)
   \<and> (2 :: real) = weightedExtension (Grid2D 1 1 2 2) [0, - 1, - 2, 1] [0, 0, 3, 0] 3 0 3 0
   \<and> fst (selectNeighbours (Grid2D 1 1 2 2) 3
         (numEvaluated (Grid2D 1 1 2 2) [False, True, False, False] 3)
         (trialIndices (Grid2D 1 1 2 2) [- 1, 1 / 2, 1 / 2, 1] [False, True, False, False] 3)) = 1
   \<and> (\<exists>dis. calcTrialValue (Grid2D 1 1 2 2) [- 1, 1 / 2, 1 / 2, 1] 3
                [False, True, False, False] [0, 6, 0, 0] = Inr (dis, 6))"
proof -
  have "2 = weightedExtension (Grid2D 1 1 2 2) [0, - 1, - 2, 1] [0, 0, 3, 0] 3 0 3
              (if [0, - 1, - 2, 1 :: real] ! 3 > 0 then max (- 1) 0 else min (- 1) 0)"
    using C9_extension_blend [OF clamp_shape] clamp_value
    unfolding clamp_indices clamp_select by simp
  moreover have "\<exists>dis. calcTrialValue (Grid2D 1 1 2 2) [- 1, 1 / 2, 1 / 2, 1] 3
                [False, True, False, False] [0, 6, 0, 0] = Inr (dis, 6)"
    using C9_extension_blend [OF one_shape]
    unfolding one_indices one_select by (simp add: cellToCellIDsFilled_def Grid2D_2_2 upt_rec)
  ultimately show ?thesis
    unfolding clamp_indices clamp_select clamp_value one_indices one_select by simp
qed

text \<open>
  C3. The solver raises its configuration error exactly when no neighbour of the cell is
  evaluated; the claim adds that with an evaluated neighbour it always returns. The code does
  not: on the 3 by 3 mesh of cells of size 1 by 2 with the field
  \<open>(-1, 1, -1, 1, 1, 1, -1, 1, -1)\<close>, the four neighbours of the centre cell are interface
  cells, the two nearest (below and above, value \<open>1/2\<close>) have opposite normals, and the solve
  from them gives \<open>dis = 1/2\<close> and two weights \<open>0\<close>: the division by their sum raises. The
  call of the solver for the centre cell, with four evaluated neighbours, ends in
  \<open>ZeroDivisionError\<close>, and so does the pass that makes this call.
\<close>

theorem C3_plus_shaped_field_raises:
  "numEvaluated (Grid2D 1 2 3 3) [True, True, True, True, False, True, True, True, True] 4 = 4
   \<and> calcTrialValue (Grid2D 1 2 3 3)
         [- (1 / sqrt 5), 1 / 2, - (1 / sqrt 5), 1, 1, 1, - (1 / sqrt 5), 1 / 2, - (1 / sqrt 5)] 4
         [True, True, True, True, False, True, True, True, True] [0, 0, 0, 0, 0, 0, 0, 0, 0] = Inl ZeroDivisionError
   \<and> calcDistanceFunction
         \<lparr>mesh = Grid2D 1 2 3 3, value' = [- 1, 1, - 1, 1, 1, 1, - 1, 1, - 1], tmpValue = t,
          narrowBandWidth = w\<rparr> None False = Inl ZeroDivisionError"
proof (intro conjI)
  show "numEvaluated (Grid2D 1 2 3 3) [True, True, True, True, False, True, True, True, True] 4 = 4"
    by (simp add: premise_defs Grid2D_3_3 upt_rec)
  show "calcTrialValue (Grid2D 1 2 3 3)
         [- (1 / sqrt 5), 1 / 2, - (1 / sqrt 5), 1, 1, 1, - (1 / sqrt 5), 1 / 2, - (1 / sqrt 5)] 4
         [True, True, True, True, False, True, True, True, True] [0, 0, 0, 0, 0, 0, 0, 0, 0] = Inl ZeroDivisionError"
    by (rule plus_centre)
  show "calcDistanceFunction
         \<lparr>mesh = Grid2D 1 2 3 3, value' = [- 1, 1, - 1, 1, 1, 1, - 1, 1, - 1], tmpValue = t,
          narrowBandWidth = w\<rparr> None False = Inl ZeroDivisionError"
    unfolding calcDistanceFunction_def internal_calcDistanceFunction_def Let_def
    by (simp only: distanceVariable.simps plus_shape plus_locate plus_positive plus_negative
        plus_zeros plus_spreadExtension plus_propagate option.case sum.case prod.case
        not_True_eq_False simp_thms if_False)
qed

text \<open>
  C10 (as the code has it). For a cell with two neighbour slots, as every cell of a 1-D mesh
  has (the dimension is then not 2), and with at least one evaluated neighbour, the solver
  returns the one-neighbour estimate \<open>v0 + sign * d0\<close> with the extension value \<open>e0\<close>: the cross
  product is \<open>0\<close>, below the threshold, and two evaluated neighbours count as one.
\<close>

theorem C10_two_slots_one_neighbour:
  fixes m :: mesh and v x :: "real list" and flags :: "bool list" and i :: nat
  defines "index0 \<equiv> trialIndices m v flags i ! 0"
  defines "v0 \<equiv> v ! (cellToCellIDsFilled m ! i ! index0)"
  defines "e0 \<equiv> x ! (cellToCellIDsFilled m ! i ! index0)"
  defines "d0 \<equiv> filledDistances m ! i ! index0"
  defines "sign \<equiv> (if v ! i > 0 then 1 else - 1 :: real)"
  assumes shape: "trialShapeOK m v flags x i"
    and dim: "dim m \<noteq> 2"
    and slots: "length (cellToCellIDs m ! i) = 2"
    and evaluated: "1 \<le> numEvaluated m flags i"
  shows "calcTrialValue m v i flags x = Inr (v0 + sign * d0, e0)"
proof -
  from shape have "i < length (cellToCellIDs m)" by (simp add: trialShapeOK_def)
  from numEvaluated_le [OF this, of flags] slots evaluated
  have N: "numEvaluated m flags i = 1 \<or> numEvaluated m flags i = 2" by linarith
  have cross: "trialCross m i a b = 0" for a b
    using dim by (simp add: trialCross_def Let_def)
  from N have "fst (selectNeighbours m i (numEvaluated m flags i) (trialIndices m v flags i)) = 1"
    by (auto simp: selectNeighbours_def Let_def cross)
  then show ?thesis
    by (simp add: calcTrialValue_unfold [OF shape] Let_def index0_def v0_def e0_def d0_def sign_def)
qed

text \<open>The middle cell of the 1-D mesh of three cells, both neighbours evaluated.\<close>

theorem C10_two_slots_one_neighbour_witness:
  "trialShapeOK (Grid1D 1 3) [1 / 2, 5, 3 / 4] [True, False, True] [7, 0, 9] 1
   \<and> dim (Grid1D 1 3) \<noteq> 2
   \<and> length (cellToCellIDs (Grid1D 1 3) ! 1) = 2
   \<and> numEvaluated (Grid1D 1 3) [True, False, True] 1 = 2
   \<and> calcTrialValue (Grid1D 1 3) [1 / 2, 5, 3 / 4] 1 [True, False, True] [7, 0, 9] = Inr (3 / 2, 7)"
proof -
  have s: "trialShapeOK (Grid1D 1 3) [1 / 2, 5, 3 / 4] [True, False, True] [7, 0, 9] 1"
    by (simp add: premise_defs Grid1D_3 upt_rec)
  have d: "dim (Grid1D 1 3) \<noteq> 2" by (simp add: Grid1D_3)
  have l: "length (cellToCellIDs (Grid1D 1 3) ! 1) = 2" by (simp add: Grid1D_3)
  have n: "numEvaluated (Grid1D 1 3) [True, False, True] 1 = 2"
    by (simp add: premise_defs Grid1D_3 upt_rec)
  from C10_two_slots_one_neighbour [OF s d l] n s d l show ?thesis
    by (simp add: premise_defs Grid1D_3 upt_rec)
qed

text \<open>
  C10 as stated speaks of every mesh whose dimension is not 2. In dimension 3 a cell with
  three evaluated neighbours keeps \<open>N = 3\<close>, takes the slot at position \<open>dim\<close> of the order as
  its second slot and solves the quadratic: the result \<open>4/5\<close> is not the one-neighbour
  estimate \<open>v0 + sign * d0 = 1\<close>.
\<close>

theorem C10_dimension_three_counterexample:
  "dim mesh3D \<noteq> 2
   \<and> numEvaluated mesh3D [False, True, True, True, False] 0 = 3
   \<and> calcTrialValue mesh3D [1, 0, 1 / 2, 1, 2] 0 [False, True, True, True, False] [0, 0, 0, 0, 0] =
       Inr (4 / 5, 0)
   \<and> [1, 0, 1 / 2, 1, 2] ! (cellToCellIDsFilled mesh3D ! 0 !
          (trialIndices mesh3D [1, 0, 1 / 2, 1, 2] [False, True, True, True, False] 0 ! 0))
       + 1 * (filledDistances mesh3D ! 0 !
          (trialIndices mesh3D [1, 0, 1 / 2, 1, 2] [False, True, True, True, False] 0 ! 0)) = (1 :: real)"
  unfolding mesh3D_value mesh3D_indices
  by (simp add: premise_defs mesh3D_def upt_rec)

text \<open>
  C5. When \<^verbatim>\<open>extendVariable\<close> returns, the field of the object is the field it had before
  the call, element for element; the mesh and the band width are untouched, and the array
  that has changed is the caller's extension variable, which keeps its length. (The saved
  copy \<^verbatim>\<open>tmpValue\<close> is the scratch attribute of the call.)
\<close>

theorem C5_extendVariable_frame:
  assumes "extendVariable dv extensionVariable deleteIslands = Inr (dv', extensionVariable')"
  shows "value' dv' = value' dv \<and> mesh dv' = mesh dv
         \<and> narrowBandWidth dv' = narrowBandWidth dv
         \<and> length extensionVariable' = length extensionVariable"
proof -
  let ?dv1 = "dv\<lparr>tmpValue := value' dv\<rparr>"
  from assms obtain dv2 where
    r: "internal_calcDistanceFunction ?dv1 (Some extensionVariable) None deleteIslands =
          Inr (dv2, extensionVariable')"
    and dv': "dv' = dv2\<lparr>value' := tmpValue dv2\<rparr>"
    by (auto simp: extendVariable_def Let_def split: sum.splits)
  from r have len: "length extensionVariable = length (value' dv)"
    by (auto simp: internal_calcDistanceFunction_def Let_def split: if_splits)
  from internal_calcDistanceFunction_result [OF r] obtain st :: marching where
    "dv2 = ?dv1\<lparr>value' := val st\<rparr>" "length extensionVariable' = length (value' ?dv1)"
    by auto
  with dv' len show ?thesis by simp
qed

text \<open>
  On the 1-D mesh of three cells with the field \<open>(-1, 1, 3)\<close>: the pass works on the field
  (its last cell becomes \<open>2\<close>), the extension variable \<open>(1, 2, 0)\<close> becomes \<open>(2, 2, 2)\<close>, and the
  field is \<open>(-1, 1, 3)\<close> again when the call returns.
\<close>

theorem C5_extendVariable_frame_witness:
  "extendVariable
     \<lparr>mesh = Grid1D 1 3, value' = [- 1, 1, 3], tmpValue = [], narrowBandWidth = 10 ^ 10\<rparr>
     [1, 2, 0] False =
   Inr (\<lparr>mesh = Grid1D 1 3, value' = [- 1, 1, 3], tmpValue = [- 1, 1, 3],
         narrowBandWidth = 10 ^ 10\<rparr>, [2, 2, 2])
   \<and> value' \<lparr>mesh = Grid1D 1 3, value' = [- 1, 1, 3], tmpValue = [- 1, 1, 3],
         narrowBandWidth = 10 ^ 10\<rparr> = [- 1, 1, 3]
   \<and> length [2, 2, 2 :: real] = length [1, 2, 0 :: real]"
  using C5_extendVariable_frame [OF ext3_extendVariable] ext3_extendVariable by simp

end
